theory Spec2Isabelle
  imports Complex_Main "HOL-Library.Multiset" "HOL-Library.Word"
begin

section \<open>Return codes, exceptions and the C boundary (imutil/dicom.cpp)\<close>

text \<open>
  The C return codes \<^verbatim>\<open>SIFT3D_SUCCESS\<close> and \<^verbatim>\<open>SIFT3D_FAILURE\<close> come from a header that is
  not among the sources; only their identity matters here. The C truth test
  \<^verbatim>\<open>if (read_dcm(...))\<close> is read as "the code is not \<^verbatim>\<open>SIFT3D_SUCCESS\<close>".
\<close>

datatype ret_code = SIFT3D_SUCCESS | SIFT3D_FAILURE

text \<open>
  The two handlers of \<^verbatim>\<open>CATCH_EXCEPTIONS\<close> distinguish a \<^verbatim>\<open>std::exception\<close> (with its
  \<^verbatim>\<open>what()\<close> text) from anything else.
\<close>

datatype cpp_exception = Std_exception string | Unexpected_exception

text \<open>
  What running a C++ helper can do: return a value, leave by an exception, or stop the
  process in a failed \<^verbatim>\<open>assert\<close>.
\<close>

datatype 'a cpp_result = Returns 'a | Throws cpp_exception | Assert_aborts

text \<open>
  What the C caller of an entry point sees: a value, or the death of the process. There is
  no constructor for an exception: a C caller cannot receive one.
\<close>

datatype 'a c_result = C_returns 'a | Process_aborted

section \<open>Images\<close>

text \<open>
  The \<^verbatim>\<open>Image\<close> struct: dimensions, voxel spacing and the voxel buffer. The buffer is read and
  written through \<^verbatim>\<open>SIFT3D_IM_GET_VOX(im, x, y, z, c)\<close> only, so it is modelled as the function
  from coordinates to the voxel stored there (strides are the default ones throughout
  dicom.cpp). \<^verbatim>\<open>float\<close> and \<^verbatim>\<open>double\<close> values are modelled by the real numbers they denote.
\<close>

record Image =
  nx :: int
  ny :: int
  nz :: int
  nc :: int
  ux :: real
  uy :: real
  uz :: real
  data :: "int \<Rightarrow> int \<Rightarrow> int \<Rightarrow> int \<Rightarrow> real"

section \<open>The Dicom helper class\<close>

text \<open>
  What DCMTK reports about the file at a path: the outcome of \<^verbatim>\<open>loadFile\<close>, the elements the
  constructor asks for (\<open>None\<close> when the lookup is bad or yields \<^verbatim>\<open>NULL\<close>), and the
  \<^verbatim>\<open>DicomImage\<close> queries. \<open>InstanceNumber\<close> holds the integer that \<^verbatim>\<open>atoll\<close> reads from the
  element's text, as stored in the \<^verbatim>\<open>int\<close> field. \<open>getOutputData i\<close> is the rendered frame
  \<open>i\<close> (a pointer to 32-bit words, or \<^verbatim>\<open>NULL\<close>, here \<open>None\<close>).
\<close>

record dcm_file =
  loadFile_good :: bool
  SeriesInstanceUID :: "string option"
  InstanceNumber :: "int option"
  image_status_normal :: bool
  isMonochrome :: bool
  getWidth :: int
  getHeight :: int
  getFrameCount :: int
  PixelSpacing :: "real option"
  getHeightWidthRatio :: real
  SliceThickness :: "real option"
  getDepth :: int
  getOutputData :: "int \<Rightarrow> (nat \<Rightarrow> 32 word) option"

text \<open>
  The private fields of class \<^verbatim>\<open>Dicom\<close>, named by their getters. The field \<^verbatim>\<open>instance\<close> is
  \<open>instance_number\<close> here. The C++ constructor leaves the fields it has not reached
  uninitialised; the model gives them the values of the default constructor (and 0), and
  no caller reads them from an object that is not valid.
\<close>

record Dicom =
  name :: string
  seriesUID :: string
  instance_number :: int
  getUx :: real
  getUy :: real
  getUz :: real
  getNx :: int
  getNy :: int
  getNz :: int
  getNc :: int
  isValid :: bool

definition Dicom_blank :: "string \<Rightarrow> Dicom" where
  "Dicom_blank path =
     \<lparr>name = path, seriesUID = [], instance_number = - 1,
      getUx = 0, getUy = 0, getUz = 0,
      getNx = 0, getNy = 0, getNz = 0, getNc = 0, isValid = False\<rparr>"

text \<open>\<^verbatim>\<open>Dicom::Dicom(std::string path)\<close>: every early \<^verbatim>\<open>return\<close> leaves \<open>isValid\<close> false.\<close>

definition Dicom_ctor :: "string \<Rightarrow> dcm_file \<Rightarrow> Dicom" where
  "Dicom_ctor path f =
     (let d0 = Dicom_blank path in
      if \<not> loadFile_good f then d0
      else case SeriesInstanceUID f of
        None \<Rightarrow> d0
      | Some uid \<Rightarrow>
          let d1 = d0\<lparr>seriesUID := uid\<rparr> in
          (case InstanceNumber f of
            None \<Rightarrow> d1
          | Some inst \<Rightarrow>
              let d2 = d1\<lparr>instance_number := inst\<rparr> in
              if \<not> image_status_normal f then d2
              else if \<not> isMonochrome f then d2
              else
                let d3 = d2\<lparr>getNc := 1, getNx := getWidth f, getNy := getHeight f,
                            getNz := getFrameCount f\<rparr> in
                if getNx d3 < 1 \<or> getNy d3 < 1 \<or> getNz d3 < 1 then d3
                else (case PixelSpacing f of
                  None \<Rightarrow> d3
                | Some pixelSpacing \<Rightarrow>
                    let d4 = d3\<lparr>getUx := pixelSpacing\<rparr> in
                    if getUx d4 \<le> 0 then d4
                    else
                      let d5 = d4\<lparr>getUy := getUx d4 * getHeightWidthRatio f\<rparr> in
                      if getUy d5 \<le> 0 then d5
                      else (case SliceThickness f of
                        None \<Rightarrow> d5
                      | Some sliceThickness \<Rightarrow>
                          let d6 = d5\<lparr>getUz := sliceThickness\<rparr> in
                          if getUz d6 \<le> 0 then d6
                          else d6\<lparr>isValid := True\<rparr>))))"

text \<open>\<^verbatim>\<open>operator <\<close> (sort by instance number) and \<^verbatim>\<open>eqSeries\<close>.\<close>

definition Dicom_less :: "Dicom \<Rightarrow> Dicom \<Rightarrow> bool" where
  "Dicom_less a b = (instance_number a < instance_number b)"

definition eqSeries :: "Dicom \<Rightarrow> Dicom \<Rightarrow> bool" where
  "eqSeries a b = (seriesUID a = seriesUID b)"

section \<open>The world the DICOM reader runs in\<close>

text \<open>
  The file-type test \<^verbatim>\<open>im_get_format\<close> lives in imutil.c, which is not among the sources;
  it is a parameter of the world, with the formats the interface names.
\<close>

datatype im_format = DICOM | NIFTI | DIRECTORY | UNKNOWN_FORMAT

datatype stat_result = Stat_fails | Not_a_directory | Is_a_directory

text \<open>
  Everything outside dicom.cpp that the reader depends on:
  \<^item> \<open>stat_path\<close>, \<open>opendir_ok\<close>, \<open>readdir_names\<close>: the POSIX directory calls; \<open>readdir_names\<close>
    lists the entry names in the order \<^verbatim>\<open>readdir\<close> enumerates them;
  \<^item> \<open>file_sep\<close>: the macro \<^verbatim>\<open>SIFT3D_FILE_SEP\<close>;
  \<^item> \<open>im_get_format\<close>, \<open>im_resize_ok\<close> (whether \<^verbatim>\<open>im_resize\<close> can allocate the buffer) and
    \<open>init_im\<close> (the image \<^verbatim>\<open>init_im\<close> sets up): helpers of imutil.c;
  \<^item> \<open>dcm_at\<close>: what DCMTK reports for the file at a path; files do not change during a call;
  \<^item> \<open>little_endian\<close>: the byte order of the machine, tested by \<^verbatim>\<open>isLittleEndian\<close>;
  \<^item> \<open>float_of_uint32\<close>: the conversion \<^verbatim>\<open>static_cast<float>\<close> of a 32-bit unsigned value;
  \<^item> \<open>string_ctor_ok\<close>: whether a \<^verbatim>\<open>std::string\<close> with this content can be allocated
    (otherwise \<^verbatim>\<open>std::bad_alloc\<close> is thrown);
  \<^item> \<open>std_sort\<close>: what \<^verbatim>\<open>std::sort\<close> returns for a vector (C++ fixes it only up to the order
    of equal elements).
\<close>

record dcm_world =
  stat_path :: "string \<Rightarrow> stat_result"
  opendir_ok :: "string \<Rightarrow> bool"
  readdir_names :: "string \<Rightarrow> string list"
  file_sep :: char
  im_get_format :: "string \<Rightarrow> im_format"
  im_resize_ok :: "Image \<Rightarrow> bool"
  init_im :: Image
  dcm_at :: "string \<Rightarrow> dcm_file"
  little_endian :: bool
  float_of_uint32 :: "32 word \<Rightarrow> real"
  string_ctor_ok :: "string \<Rightarrow> bool"
  std_sort :: "Dicom list \<Rightarrow> Dicom list"

definition bad_alloc :: cpp_exception where
  "bad_alloc = Std_exception ''std::bad_alloc''"

definition sepStr :: "'a dcm_world_scheme \<Rightarrow> string" where
  "sepStr W = [file_sep W]"

definition isLittleEndian :: "dcm_world \<Rightarrow> bool" where
  "isLittleEndian W = little_endian W"

section \<open>The exception barrier\<close>

text \<open>
  \<^verbatim>\<open>CATCH_EXCEPTIONS(ret, tag, fun, ...)\<close>: \<open>ret\<close> is the value of the call, or
  \<^verbatim>\<open>SIFT3D_FAILURE\<close> when either handler catches. A failed \<^verbatim>\<open>assert\<close> is not an exception
  and is not caught. The C++ helpers below return the outcome of the call together with
  the state they leave behind (the caller's image, the files written), which the entry
  points pass on unchanged.
\<close>

definition CATCH_EXCEPTIONS :: "ret_code cpp_result \<Rightarrow> ret_code c_result" where
  "CATCH_EXCEPTIONS r =
     (case r of
        Returns ret \<Rightarrow> C_returns ret
      | Throws (Std_exception what) \<Rightarrow> C_returns SIFT3D_FAILURE
      | Throws Unexpected_exception \<Rightarrow> C_returns SIFT3D_FAILURE
      | Assert_aborts \<Rightarrow> Process_aborted)"

section \<open>Reading one DICOM file\<close>

text \<open>
  The body of the frame loop of \<^verbatim>\<open>read_dcm_cpp\<close>: the voxels \<open>(x, y, i)\<close> of channel 0, for
  \<open>0 \<le> x \<le> nx - 1\<close> and \<open>0 \<le> y \<le> ny - 1\<close>, receive the words of the frame shifted right.
  The writes of one frame go to distinct voxels, so they are one update of the buffer.
\<close>

definition copy_frame ::
  "dcm_world \<Rightarrow> nat \<Rightarrow> (nat \<Rightarrow> 32 word) \<Rightarrow> int \<Rightarrow> Image \<Rightarrow> Image" where
  "copy_frame W shift frameData i im =
     im\<lparr>data := (\<lambda>x y z c.
        if 0 \<le> x \<and> x \<le> nx im - 1 \<and> 0 \<le> y \<and> y \<le> ny im - 1 \<and> z = i \<and> c = 0
        then float_of_uint32 W (drop_bit shift (frameData (nat (x + y * nx im))))
        else data im x y z c)\<rparr>"

text \<open>The loop \<^verbatim>\<open>for (int i = 0; i < im->nz; i++)\<close>, over the frame numbers still to read.\<close>

fun read_frames ::
  "dcm_world \<Rightarrow> dcm_file \<Rightarrow> nat \<Rightarrow> int list \<Rightarrow> Image \<Rightarrow> ret_code \<times> Image" where
  "read_frames W f shift [] im = (SIFT3D_SUCCESS, im)"
| "read_frames W f shift (i # rest) im =
     (case getOutputData f i of
        None \<Rightarrow> (SIFT3D_FAILURE, im)
      | Some frameData \<Rightarrow> read_frames W f shift rest (copy_frame W shift frameData i im))"

definition read_dcm_cpp ::
  "dcm_world \<Rightarrow> string \<Rightarrow> Image \<Rightarrow> ret_code cpp_result \<times> Image" where
  "read_dcm_cpp W path im =
     (if \<not> string_ctor_ok W path then (Throws bad_alloc, im)
      else
        let f = dcm_at W path; dicom = Dicom_ctor path f in
        if \<not> isValid dicom then (Returns SIFT3D_FAILURE, im)
        else if \<not> image_status_normal f then (Returns SIFT3D_FAILURE, im)
        else
          let im1 = im\<lparr>nx := getNx dicom, ny := getNy dicom, nz := getNz dicom,
                       nc := getNc dicom, ux := getUx dicom, uy := getUy dicom,
                       uz := getUz dicom\<rparr> in
          if \<not> im_resize_ok W im1 then (Returns SIFT3D_FAILURE, im1)
          else
            let bufNBits = 32; depth = getDepth f in
            if depth > bufNBits then (Returns SIFT3D_FAILURE, im1)
            else
              let shift = (if isLittleEndian W then nat (bufNBits - depth) else 0) in
              (case read_frames W f shift [0..nz im1 - 1] im1 of
                 (ret, im2) \<Rightarrow> (Returns ret, im2)))"

definition read_dcm :: "dcm_world \<Rightarrow> string \<Rightarrow> Image \<Rightarrow> ret_code c_result \<times> Image" where
  "read_dcm W path im =
     (case read_dcm_cpp W path im of (ret, im') \<Rightarrow> (CATCH_EXCEPTIONS ret, im'))"

section \<open>Reading a directory of DICOM files\<close>

text \<open>
  The \<^verbatim>\<open>readdir\<close> loop: entries that are not DICOM files are skipped, a DICOM file whose
  \<^verbatim>\<open>Dicom\<close> object is not valid ends the call (\<open>None\<close>), the others are appended to the
  vector \<open>dicoms\<close>. Forming the full path allocates a \<^verbatim>\<open>std::string\<close>.
\<close>

fun load_dicoms ::
  "dcm_world \<Rightarrow> string \<Rightarrow> string list \<Rightarrow> Dicom list \<Rightarrow> (Dicom list option) cpp_result" where
  "load_dicoms W path [] dicoms = Returns (Some dicoms)"
| "load_dicoms W path (d_name # ents) dicoms =
     (let fullfile = path @ sepStr W @ d_name in
      if \<not> string_ctor_ok W fullfile then Throws bad_alloc
      else if im_get_format W fullfile \<noteq> DICOM then load_dicoms W path ents dicoms
      else
        let dicom = Dicom_ctor fullfile (dcm_at W fullfile) in
        if \<not> isValid dicom then Returns None
        else load_dicoms W path ents (dicoms @ [dicom]))"

text \<open>The series check, \<^verbatim>\<open>for (int i = 1; i < num_files; i++)\<close>, over the files after the first.\<close>

fun same_series :: "Dicom \<Rightarrow> Dicom list \<Rightarrow> bool" where
  "same_series first [] = True"
| "same_series first (dicom # rest) =
     (if \<not> eqSeries first dicom then False else same_series first rest)"

text \<open>
  The dimension check over all files; \<open>None\<close> is the early \<^verbatim>\<open>return SIFT3D_FAILURE\<close>, the
  number is the z-dimension counted so far. C \<^verbatim>\<open>int\<close> is modelled by the integers: a series
  whose frame counts add up past the range of \<^verbatim>\<open>int\<close> is outside the model.
\<close>

fun verify_dims :: "int \<Rightarrow> int \<Rightarrow> int \<Rightarrow> Dicom list \<Rightarrow> int \<Rightarrow> int option" where
  "verify_dims nx0 ny0 nc0 [] nz0 = Some nz0"
| "verify_dims nx0 ny0 nc0 (dicom # rest) nz0 =
     (if getNx dicom \<noteq> nx0 \<or> getNy dicom \<noteq> ny0 \<or> getNc dicom \<noteq> nc0 then None
      else verify_dims nx0 ny0 nc0 rest (nz0 + getNz dicom))"

text \<open>
  Copying a slice into the volume at z-offset \<open>off_z\<close> (\<^verbatim>\<open>SIFT3D_IM_LOOP_START_C\<close> over the
  slice): every voxel of the slice is written once, so the loop is one update.
\<close>

definition copy_slice :: "Image \<Rightarrow> int \<Rightarrow> Image \<Rightarrow> Image" where
  "copy_slice slice_im off_z im =
     im\<lparr>data := (\<lambda>x y z c.
        if 0 \<le> x \<and> x < nx slice_im \<and> 0 \<le> y \<and> y < ny slice_im \<and>
           off_z \<le> z \<and> z < off_z + nz slice_im \<and> 0 \<le> c \<and> c < nc slice_im
        then data slice_im x y (z - off_z) c
        else data im x y z c)\<rparr>"

text \<open>
  The loop that reads the sorted files again, through the C entry point \<^verbatim>\<open>read_dcm\<close>, into
  the temporary image \<open>slice\<close> and copies each into the volume. The result carries
  \<open>off_z\<close> for the \<^verbatim>\<open>assert\<close> after the loop. The file name handed to \<^verbatim>\<open>read_dcm\<close>
  is taken to read as the path stored in the \<^verbatim>\<open>Dicom\<close> object.
\<close>

fun read_slices ::
  "dcm_world \<Rightarrow> Dicom list \<Rightarrow> Image \<Rightarrow> int \<Rightarrow> Image \<Rightarrow> (ret_code \<times> Image \<times> int) cpp_result" where
  "read_slices W [] slice_im off_z im = Returns (SIFT3D_SUCCESS, im, off_z)"
| "read_slices W (dicom # rest) slice_im off_z im =
     (case read_dcm W (name dicom) slice_im of
        (Process_aborted, slice_im') \<Rightarrow> Assert_aborts
      | (C_returns ret, slice_im') \<Rightarrow>
          if ret \<noteq> SIFT3D_SUCCESS then Returns (SIFT3D_FAILURE, im, off_z)
          else read_slices W rest slice_im' (off_z + nz slice_im') (copy_slice slice_im' off_z im))"

definition read_dcm_dir_cpp ::
  "dcm_world \<Rightarrow> string \<Rightarrow> Image \<Rightarrow> ret_code cpp_result \<times> Image" where
  "read_dcm_dir_cpp W path im =
     (case stat_path W path of
        Stat_fails \<Rightarrow> (Returns SIFT3D_FAILURE, im)
      | Not_a_directory \<Rightarrow> (Returns SIFT3D_FAILURE, im)
      | Is_a_directory \<Rightarrow>
          if \<not> opendir_ok W path then (Returns SIFT3D_FAILURE, im)
          else (case load_dicoms W path (readdir_names W path) [] of
            Throws e \<Rightarrow> (Throws e, im)
          | Assert_aborts \<Rightarrow> (Assert_aborts, im)
          | Returns None \<Rightarrow> (Returns SIFT3D_FAILURE, im)
          | Returns (Some dicoms) \<Rightarrow>
              (case dicoms of
                [] \<Rightarrow> (Returns SIFT3D_FAILURE, im)
              | first # others \<Rightarrow>
                  if \<not> same_series first others then (Returns SIFT3D_FAILURE, im)
                  else
                    (case verify_dims (getNx first) (getNy first) (getNc first) dicoms 0 of
                      None \<Rightarrow> (Returns SIFT3D_FAILURE, im)
                    | Some nz0 \<Rightarrow>
                        let im1 = im\<lparr>nx := getNx first, ny := getNy first, nz := nz0,
                                     nc := getNc first, ux := getUx first,
                                     uy := getUy first, uz := getUz first\<rparr> in
                        if \<not> im_resize_ok W im1 then (Returns SIFT3D_FAILURE, im1)
                        else
                          (case read_slices W (std_sort W dicoms) (init_im W) 0 im1 of
                            Throws e \<Rightarrow> (Throws e, im1)
                          | Assert_aborts \<Rightarrow> (Assert_aborts, im1)
                          | Returns (ret, im2, off_z) \<Rightarrow>
                              if ret \<noteq> SIFT3D_SUCCESS then (Returns SIFT3D_FAILURE, im2)
                              else if off_z \<noteq> nz0 then (Assert_aborts, im2)
                              else (Returns SIFT3D_SUCCESS, im2))))))"

definition read_dcm_dir ::
  "dcm_world \<Rightarrow> string \<Rightarrow> Image \<Rightarrow> ret_code c_result \<times> Image" where
  "read_dcm_dir W path im =
     (case read_dcm_dir_cpp W path im of (ret, im') \<Rightarrow> (CATCH_EXCEPTIONS ret, im'))"

text \<open>
  The DICOM files of a directory, by full path and in enumeration order, and the
  \<^verbatim>\<open>Dicom\<close> object built for a path.
\<close>

definition dicom_files :: "dcm_world \<Rightarrow> string \<Rightarrow> string list" where
  "dicom_files W path =
     filter (\<lambda>fullfile. im_get_format W fullfile = DICOM)
       (map (\<lambda>d_name. path @ sepStr W @ d_name) (readdir_names W path))"

definition Dicom_of :: "dcm_world \<Rightarrow> string \<Rightarrow> Dicom" where
  "Dicom_of W fullfile = Dicom_ctor fullfile (dcm_at W fullfile)"

text \<open>
  The voxel that \<^verbatim>\<open>read_dcm_cpp\<close> takes from frame \<open>z\<close> of a file at column \<open>x\<close>, row \<open>y\<close>
  (\<open>None\<close> when DCMTK renders no such frame), and the z-offset at which the \<open>k\<close>-th file
  of a list starts in the volume: the frames of the files before it, counted in the
  files (\<open>frames_before\<close>) or in the \<^verbatim>\<open>Dicom\<close> objects (\<open>z_offset\<close>).
\<close>

definition dcm_voxel :: "dcm_world \<Rightarrow> string \<Rightarrow> int \<Rightarrow> int \<Rightarrow> int \<Rightarrow> real option" where
  "dcm_voxel W fullfile x y z =
     (let f = dcm_at W fullfile in
      case getOutputData f z of
        None \<Rightarrow> None
      | Some frameData \<Rightarrow>
          Some (float_of_uint32 W
            (drop_bit (if isLittleEndian W then nat (32 - getDepth f) else 0)
               (frameData (nat (x + y * getWidth f))))))"

definition frames_before :: "dcm_world \<Rightarrow> Dicom list \<Rightarrow> nat \<Rightarrow> int" where
  "frames_before W ds k = (\<Sum>d\<leftarrow>take k ds. getFrameCount (dcm_at W (name d)))"

definition z_offset :: "Dicom list \<Rightarrow> nat \<Rightarrow> int" where
  "z_offset ds k = sum_list (map getNz (take k ds))"

text \<open>
  The contract of \<^verbatim>\<open>std::sort\<close> with \<^verbatim>\<open>operator <\<close> on one vector: the result is a
  rearrangement of the vector in which no element is less than an earlier one.
\<close>

definition std_sort_contract :: "dcm_world \<Rightarrow> Dicom list \<Rightarrow> bool" where
  "std_sort_contract W ds =
     (mset (std_sort W ds) = mset ds \<and>
      sorted_wrt (\<lambda>a b. \<not> Dicom_less b a) (std_sort W ds))"

section \<open>Writing DICOM files\<close>

subsection \<open>Data sets, metadata and the library\<close>

text \<open>
  The elements \<^verbatim>\<open>write_dcm_cpp\<close> touches, by their DCMTK tag, and what it stores in them:
  a string, the text \<^verbatim>\<open>snprintf\<close> produces for a number (kept as the number and the
  conversion used), a 16-bit unsigned value, or the array of 8-bit pixels. A pixel is
  \<open>None\<close> when its value is indeterminate: never written, or converted from a number
  that \<^verbatim>\<open>uint8_t\<close> cannot hold.
\<close>

datatype dcm_tag =
    DCM_ImageType | DCM_SOPClassUID | DCM_PhotometricInterpretation
  | DCM_PixelRepresentation | DCM_SamplesPerPixel | DCM_PlanarConfiguration
  | DCM_BitsAllocated | DCM_BitsStored | DCM_HighBit
  | DCM_PatientName | DCM_PatientID | DCM_StudyInstanceUID | DCM_SeriesInstanceUID
  | DCM_SeriesDescription | DCM_SOPInstanceUID
  | DCM_Rows | DCM_Columns | DCM_NumberOfFrames | DCM_InstanceNumber
  | DCM_SliceLocation | DCM_PixelSpacing | DCM_PixelAspectRatio | DCM_SliceThickness
  | DCM_PixelData | DCM_MediaStorageSOPClassUID | DCM_MediaStorageSOPInstanceUID

datatype dcm_value =
    String_value string
  | Printf_d int
  | Printf_u nat
  | Printf_f real
  | Printf_f_f real real
  | Uint16_value "16 word"
  | Uint8Array "8 word option list"

type_synonym DcmDataset = "dcm_tag \<Rightarrow> dcm_value option"

datatype E_TransferSyntax = EXS_LittleEndianExplicit | EXS_JPEGProcess14SV1TransferSyntax

text \<open>The UID roots of DCMTK that \<^verbatim>\<open>dcmGenerateUniqueIdentifier\<close> is called with.\<close>

datatype uid_root = SITE_STUDY_UID_ROOT | SITE_SERIES_UID_ROOT | SITE_INSTANCE_UID_ROOT

text \<open>The struct \<^verbatim>\<open>Dcm_meta\<close>, by the fields dicom.cpp reads and writes.\<close>

record Dcm_meta =
  patient_name :: string
  patient_id :: string
  series_descrip :: string
  study_uid :: string
  series_uid :: string
  instance_uid :: string
  instance_num :: nat

text \<open>
  The writer's world extends the reader's by what DCMTK and imutil.c decide:
  \<^item> \<open>put_good\<close>: whether \<^verbatim>\<open>putAndInsert...\<close> for a tag reports a good status; a call that
    does not leaves the data set as it was;
  \<^item> \<open>new_ok\<close>: whether \<^verbatim>\<open>new uint8_t[n]\<close> finds memory (otherwise it throws);
  \<^item> \<open>canWriteXfer\<close>, \<open>saveFile_good\<close>: the answers of the data set and of \<^verbatim>\<open>saveFile\<close>;
  \<^item> \<open>im_max_abs\<close>, \<open>IM_GET_IDX\<close>: the helper and the index macro of the image library,
    which are not among the sources;
  \<^item> \<open>dcmGenerateUniqueIdentifier\<close>: the UID the generator produces for a root at its
    \<open>n\<close>-th call;
  \<^item> \<open>slice_file_name\<close>: the text \<^verbatim>\<open>snprintf\<close> gives for slice \<open>i\<close> of \<open>num_slices\<close> with the
    format built from \<^verbatim>\<open>ceil(log10(num_slices))\<close> and the extension.
\<close>

record write_world = dcm_world +
  put_good :: "dcm_tag \<Rightarrow> bool"
  new_ok :: "nat \<Rightarrow> bool"
  canWriteXfer :: "E_TransferSyntax \<Rightarrow> bool"
  saveFile_good :: "string \<Rightarrow> bool"
  im_max_abs :: "Image \<Rightarrow> real"
  IM_GET_IDX :: "Image \<Rightarrow> int \<Rightarrow> int \<Rightarrow> int \<Rightarrow> int \<Rightarrow> int"
  dcmGenerateUniqueIdentifier :: "uid_root \<Rightarrow> nat \<Rightarrow> string"
  slice_file_name :: "int \<Rightarrow> int \<Rightarrow> string"

text \<open>The files saved so far: for a path, the data set and the transfer syntax written.\<close>

type_synonym saved_files = "string \<Rightarrow> (DcmDataset \<times> E_TransferSyntax) option"

definition putAndInsert ::
  "'a write_world_scheme \<Rightarrow> dcm_tag \<Rightarrow> dcm_value \<Rightarrow> DcmDataset \<Rightarrow> bool \<times> DcmDataset" where
  "putAndInsert E tag v dataset =
     (if put_good E tag then (True, dataset(tag \<mapsto> v)) else (False, dataset))"

subsection \<open>Constants and defaults of dicom.cpp\<close>

definition dcm_bit_width :: nat where
  "dcm_bit_width = 8"

definition default_patient_name :: string where
  "default_patient_name = ''DefaultSIFT3DPatient''"

definition default_series_descrip :: string where
  "default_series_descrip = ''Series generated by SIFT3D''"

definition default_patient_id :: string where
  "default_patient_id = ''DefaultSIFT3DPatientID''"

definition default_instance_num :: nat where
  "default_instance_num = 1"

text \<open>The SOP class UID of CT image storage, DCMTK's \<^verbatim>\<open>UID_CTImageStorage\<close>.\<close>

definition UID_CTImageStorage :: string where
  "UID_CTImageStorage = ''1.2.840.10008.5.1.4.1.1.2''"

text \<open>\<^verbatim>\<open>FLT_EPSILON\<close> of float.h for IEEE single precision.\<close>

definition FLT_EPSILON :: real where
  "FLT_EPSILON = 1 / 2 ^ 23"

text \<open>
  \<^verbatim>\<open>default_Dcm_meta\<close>: three calls of the generator, the \<open>t\<close>-th, \<open>t + 1\<close>-st and
  \<open>t + 2\<close>-nd. \<^verbatim>\<open>set_meta_defaults\<close> takes the metadata pointer, \<open>None\<close> for \<^verbatim>\<open>NULL\<close>.
\<close>

definition default_Dcm_meta :: "'a write_world_scheme \<Rightarrow> nat \<Rightarrow> Dcm_meta" where
  "default_Dcm_meta E t =
     \<lparr>patient_name = default_patient_name,
      patient_id = default_patient_id,
      series_descrip = default_series_descrip,
      study_uid = dcmGenerateUniqueIdentifier E SITE_STUDY_UID_ROOT t,
      series_uid = dcmGenerateUniqueIdentifier E SITE_SERIES_UID_ROOT (t + 1),
      instance_uid = dcmGenerateUniqueIdentifier E SITE_INSTANCE_UID_ROOT (t + 2),
      instance_num = default_instance_num\<rparr>"

definition set_meta_defaults :: "'a write_world_scheme \<Rightarrow> nat \<Rightarrow> Dcm_meta option \<Rightarrow> Dcm_meta" where
  "set_meta_defaults E t meta =
     (case meta of None \<Rightarrow> default_Dcm_meta E t | Some m \<Rightarrow> m)"

subsection \<open>Rendering the pixels\<close>

text \<open>
  The conversion \<^verbatim>\<open>static_cast<uint8_t>\<close> of a float: the fraction is discarded; a value
  whose integral part is outside 0..255 has no defined result.
\<close>

definition uint8_of_float :: "real \<Rightarrow> 8 word option" where
  "uint8_of_float r =
     (let i = (if 0 \<le> r then \<lfloor>r\<rfloor> else \<lceil>r\<rceil>) in
      if 0 \<le> i \<and> i \<le> 255 then Some (word_of_int i) else None)"

text \<open>
  The scaling factor (the three \<^verbatim>\<open>const float\<close> lines of \<^verbatim>\<open>write_dcm_cpp\<close>). The quotient
  of a division by zero is not a real number: \<open>float_div\<close> gives \<open>None\<close> for it, and so
  does \<open>pixel_scale\<close> if it ever divides by zero.
\<close>

definition dcm_max_val :: real where
  "dcm_max_val = real (push_bit dcm_bit_width (1::nat)) - 1"

definition float_div :: "real \<Rightarrow> real \<Rightarrow> real option" where
  "float_div a b = (if b = 0 then None else Some (a / b))"

definition im_max_of :: "'a write_world_scheme \<Rightarrow> Image \<Rightarrow> real \<Rightarrow> real" where
  "im_max_of E im max_val = (if max_val < 0 then im_max_abs E im else max_val)"

definition pixel_scale :: "'a write_world_scheme \<Rightarrow> Image \<Rightarrow> real \<Rightarrow> real option" where
  "pixel_scale E im max_val =
     (let im_max = im_max_of E im max_val in
      if im_max = 0 then Some 1 else float_div dcm_max_val im_max)"

text \<open>
  The voxels in the order of \<^verbatim>\<open>SIFT3D_IM_LOOP_START_C\<close>: \<open>z\<close> outermost, then \<open>y\<close>, \<open>x\<close>
  and the channel.
\<close>

definition im_loop_c :: "Image \<Rightarrow> (int \<times> int \<times> int \<times> int) list" where
  "im_loop_c im =
     [(x, y, z, c). z \<leftarrow> [0..nz im - 1], y \<leftarrow> [0..ny im - 1], x \<leftarrow> [0..nx im - 1],
                    c \<leftarrow> [0..nc im - 1]]"

definition pixel_index :: "Image \<Rightarrow> int \<times> int \<times> int \<times> int \<Rightarrow> nat" where
  "pixel_index im p =
     (case p of (x, y, z, c) \<Rightarrow> nat (c + x + y * nx im + z * nx im * ny im))"

text \<open>
  The rendering loop over the voxels still to visit: \<open>None\<close> is the early return at a
  negative voxel, otherwise the pixel array after the loop.
\<close>

fun render_pixels ::
  "Image \<Rightarrow> real option \<Rightarrow> (int \<times> int \<times> int \<times> int) list \<Rightarrow> 8 word option list
     \<Rightarrow> 8 word option list option" where
  "render_pixels im scale [] pixelData = Some pixelData"
| "render_pixels im scale (p # rest) pixelData =
     (case p of (x, y, z, c) \<Rightarrow>
        let vox = data im x y z c in
        if vox < 0 then None
        else render_pixels im scale rest
               (pixelData[pixel_index im p :=
                  (case scale of None \<Rightarrow> None | Some s \<Rightarrow> uint8_of_float (vox * s))]))"

text \<open>
  The number of pixels, computed in \<^verbatim>\<open>unsigned long\<close> (64 bits) from the three dimensions
  (\<^verbatim>\<open>IM_NDIMS\<close> is 3 and \<^verbatim>\<open>dims\<close> holds \<open>nx\<close>, \<open>ny\<close>, \<open>nz\<close>).
\<close>

definition numPixels :: "Image \<Rightarrow> nat" where
  "numPixels im = unat ((word_of_int (nx im) * word_of_int (ny im) * word_of_int (nz im)) :: 64 word)"

subsection \<open>write_dcm_cpp and write_dcm\<close>

text \<open>
  The helper follows the source statement by statement. \<open>status\<close> is the variable of that
  name: the checks after the calls whose result is not assigned to it test the status of
  an earlier call again.
\<close>

definition write_dcm_cpp ::
  "'a write_world_scheme \<Rightarrow> nat \<Rightarrow> string \<Rightarrow> Image \<Rightarrow> Dcm_meta option \<Rightarrow> real \<Rightarrow> saved_files
     \<Rightarrow> ret_code cpp_result \<times> saved_files" where
  "write_dcm_cpp E t path im meta max_val fs =
     (if nc im \<noteq> 1 then (Returns SIFT3D_FAILURE, fs)
      else
      let meta_new = set_meta_defaults E t meta;
          dataset = Map.empty;
          (status, dataset) = putAndInsert E DCM_ImageType (String_value ''DERIVED'') dataset in
      if \<not> status then (Returns SIFT3D_FAILURE, fs)
      else
      let (unused, dataset) =
            putAndInsert E DCM_SOPClassUID (String_value UID_CTImageStorage) dataset in
      if \<not> status then (Returns SIFT3D_FAILURE, fs)
      else
      if nc im \<noteq> 1 \<and> nc im \<noteq> 3 then (Returns SIFT3D_FAILURE, fs)
      else
      let photoInterp = (if nc im = 1 then ''MONOCHROME2'' else ''RGB'');
          (unused, dataset) =
            putAndInsert E DCM_PhotometricInterpretation (String_value photoInterp) dataset in
      if \<not> status then (Returns SIFT3D_FAILURE, fs)
      else
      let (unused, dataset) = putAndInsert E DCM_PixelRepresentation (Uint16_value 0) dataset in
      if \<not> status then (Returns SIFT3D_FAILURE, fs)
      else
      if IM_GET_IDX E im 0 0 0 1 \<noteq> IM_GET_IDX E im 0 0 0 0 + 1 then (Assert_aborts, fs)
      else
      let (unused, dataset) = putAndInsert E DCM_SamplesPerPixel (Printf_d (nc im)) dataset;
          (unused, dataset) = putAndInsert E DCM_PlanarConfiguration (String_value ''0'') dataset;
          dcm_high_bit = dcm_bit_width - 1;
          (unused, dataset) =
            putAndInsert E DCM_BitsAllocated (Uint16_value (of_nat dcm_bit_width)) dataset;
          (unused, dataset) =
            putAndInsert E DCM_BitsStored (Uint16_value (of_nat dcm_bit_width)) dataset;
          (unused, dataset) =
            putAndInsert E DCM_HighBit (Uint16_value (of_nat dcm_high_bit)) dataset in
      if \<not> status then (Returns SIFT3D_FAILURE, fs)
      else
      let (status, dataset) =
            putAndInsert E DCM_PatientName (String_value (patient_name meta_new)) dataset in
      if \<not> status then (Returns SIFT3D_FAILURE, fs)
      else
      let (status, dataset) =
            putAndInsert E DCM_PatientID (String_value (patient_id meta_new)) dataset in
      if \<not> status then (Returns SIFT3D_FAILURE, fs)
      else
      let (status, dataset) =
            putAndInsert E DCM_StudyInstanceUID (String_value (study_uid meta_new)) dataset in
      if \<not> status then (Returns SIFT3D_FAILURE, fs)
      else
      let (status, dataset) =
            putAndInsert E DCM_SeriesInstanceUID (String_value (series_uid meta_new)) dataset in
      if \<not> status then (Returns SIFT3D_FAILURE, fs)
      else
      let (status, dataset) =
            putAndInsert E DCM_SeriesDescription (String_value (series_descrip meta_new)) dataset in
      if \<not> status then (Returns SIFT3D_FAILURE, fs)
      else
      let (status, dataset) =
            putAndInsert E DCM_SOPInstanceUID (String_value (instance_uid meta_new)) dataset in
      if \<not> status then (Returns SIFT3D_FAILURE, fs)
      else
      let (xstatus, dataset) = putAndInsert E DCM_Rows (Uint16_value (word_of_int (ny im))) dataset;
          (ystatus, dataset) =
            putAndInsert E DCM_Columns (Uint16_value (word_of_int (nx im))) dataset;
          (zstatus, dataset) = putAndInsert E DCM_NumberOfFrames (Printf_d (nz im)) dataset in
      if \<not> xstatus \<or> \<not> ystatus \<or> \<not> zstatus then (Returns SIFT3D_FAILURE, fs)
      else
      let (status, dataset) =
            putAndInsert E DCM_InstanceNumber (Printf_u (instance_num meta_new)) dataset in
      if \<not> status then (Returns SIFT3D_FAILURE, fs)
      else
      let slice_loc = uz im * (real (instance_num meta_new) - 1);
          (status, dataset) = putAndInsert E DCM_SliceLocation (Printf_f slice_loc) dataset in
      if \<not> status then (Returns SIFT3D_FAILURE, fs)
      else
      let (status, dataset) =
            putAndInsert E DCM_PixelSpacing (Printf_f_f (ux im) (uy im)) dataset in
      if \<not> status then (Returns SIFT3D_FAILURE, fs)
      else
      let (status, dataset) =
            putAndInsert E DCM_PixelAspectRatio (Printf_f_f (ux im) (uy im)) dataset in
      if \<not> status then (Returns SIFT3D_FAILURE, fs)
      else
      let (status, dataset) = putAndInsert E DCM_SliceThickness (Printf_f (uz im)) dataset in
      if \<not> status then (Returns SIFT3D_FAILURE, fs)
      else
      let scale = pixel_scale E im max_val in
      if dcm_bit_width \<noteq> 8 then (Assert_aborts, fs)
      else if \<not> \<bar>dcm_max_val - 255\<bar> < FLT_EPSILON then (Assert_aborts, fs)
      else if \<not> new_ok E (numPixels im) then (Throws bad_alloc, fs)
      else
      (case render_pixels im scale (im_loop_c im) (replicate (numPixels im) None) of
         None \<Rightarrow> (Returns SIFT3D_FAILURE, fs)
       | Some pixelData \<Rightarrow>
           let (status, dataset) = putAndInsert E DCM_PixelData (Uint8Array pixelData) dataset in
           if \<not> status then (Returns SIFT3D_FAILURE, fs)
           else
           let xfer = EXS_LittleEndianExplicit in
           if \<not> canWriteXfer E xfer then (Returns SIFT3D_FAILURE, fs)
           else
           let dataset = dataset(DCM_MediaStorageSOPClassUID := None,
                                 DCM_MediaStorageSOPInstanceUID := None) in
           if \<not> saveFile_good E path then (Returns SIFT3D_FAILURE, fs)
           else (Returns SIFT3D_SUCCESS, fs(path \<mapsto> (dataset, xfer)))))"

definition write_dcm ::
  "'a write_world_scheme \<Rightarrow> nat \<Rightarrow> string \<Rightarrow> Image \<Rightarrow> Dcm_meta option \<Rightarrow> real \<Rightarrow> saved_files
     \<Rightarrow> ret_code c_result \<times> saved_files" where
  "write_dcm E t path im meta max_val fs =
     (case write_dcm_cpp E t path im meta max_val fs of
        (ret, fs') \<Rightarrow> (CATCH_EXCEPTIONS ret, fs'))"

subsection \<open>write_dcm_dir_cpp and write_dcm_dir\<close>

text \<open>Copying slice \<open>i\<close> of the volume into the one-slice buffer.\<close>

definition copy_to_slice :: "Image \<Rightarrow> int \<Rightarrow> Image \<Rightarrow> Image" where
  "copy_to_slice im i slice_im =
     slice_im\<lparr>data := (\<lambda>x y z c.
        if 0 \<le> x \<and> x < nx slice_im \<and> 0 \<le> y \<and> y < ny slice_im \<and>
           0 \<le> z \<and> z < nz slice_im \<and> 0 \<le> c \<and> c < nc slice_im
        then data im x y i c
        else data slice_im x y z c)\<rparr>"

text \<open>
  The loop over the slices still to write. \<open>t\<close> counts the calls of the UID generator;
  \<^verbatim>\<open>write_dcm\<close> is called with the metadata of the slice, so it generates none.
\<close>

fun write_slices ::
  "'a write_world_scheme \<Rightarrow> nat \<Rightarrow> string \<Rightarrow> Image \<Rightarrow> real \<Rightarrow> int list \<Rightarrow> Image \<Rightarrow> Dcm_meta
     \<Rightarrow> saved_files \<Rightarrow> ret_code cpp_result \<times> saved_files" where
  "write_slices E t path im max_val [] slice_im meta_new fs = (Returns SIFT3D_SUCCESS, fs)"
| "write_slices E t path im max_val (i # rest) slice_im meta_new fs =
     (let buf = slice_file_name E (nz im) i;
          fullfile = path @ sepStr E @ buf in
      if \<not> string_ctor_ok E fullfile then (Throws bad_alloc, fs)
      else
      let slice_im = copy_to_slice im i slice_im;
          meta_new = meta_new\<lparr>instance_uid :=
                        dcmGenerateUniqueIdentifier E SITE_INSTANCE_UID_ROOT t,
                      instance_num := nat (i + 1)\<rparr> in
      (case write_dcm E (t + 1) fullfile slice_im (Some meta_new) max_val fs of
         (Process_aborted, fs') \<Rightarrow> (Assert_aborts, fs')
       | (C_returns ret, fs') \<Rightarrow>
           if ret \<noteq> SIFT3D_SUCCESS then (Returns SIFT3D_FAILURE, fs')
           else write_slices E (t + 1) path im max_val rest slice_im meta_new fs'))"

definition write_dcm_dir_cpp ::
  "'a write_world_scheme \<Rightarrow> nat \<Rightarrow> string \<Rightarrow> Image \<Rightarrow> Dcm_meta option \<Rightarrow> saved_files
     \<Rightarrow> ret_code cpp_result \<times> saved_files" where
  "write_dcm_dir_cpp E t path im meta fs =
     (let slice_im = init_im E;
          meta_new = set_meta_defaults E t meta;
          t1 = (case meta of None \<Rightarrow> t + 3 | Some m \<Rightarrow> t);
          num_slices = nz im;
          slice_im = slice_im\<lparr>nx := nx im, ny := ny im, nz := 1, nc := nc im\<rparr> in
      if \<not> im_resize_ok E slice_im then (Returns SIFT3D_FAILURE, fs)
      else
      let max_val = im_max_abs E im in
      write_slices E t1 path im max_val [0..num_slices - 1] slice_im meta_new fs)"

definition write_dcm_dir ::
  "'a write_world_scheme \<Rightarrow> nat \<Rightarrow> string \<Rightarrow> Image \<Rightarrow> Dcm_meta option \<Rightarrow> saved_files
     \<Rightarrow> ret_code c_result \<times> saved_files" where
  "write_dcm_dir E t path im meta fs =
     (case write_dcm_dir_cpp E t path im meta fs of
        (ret, fs') \<Rightarrow> (CATCH_EXCEPTIONS ret, fs'))"

section \<open>The registration driver (siftreg.c)\<close>

subsection \<open>Parameters\<close>

definition NN_THRESH :: real where
  "NN_THRESH = 0.8"

definition MIN_INLIER_RATIO :: real where
  "MIN_INLIER_RATIO = 0.001"

definition ERR_THRESH :: real where
  "ERR_THRESH = 5.0"

definition NUM_ITER :: int where
  "NUM_ITER = 500"

text \<open>\<^verbatim>\<open>DBL_MAX\<close> and \<^verbatim>\<open>DBL_EPSILON\<close> of float.h for IEEE double precision.\<close>

definition DBL_MAX :: real where
  "DBL_MAX = (2 ^ 53 - 1) * 2 ^ 971"

definition DBL_EPSILON :: real where
  "DBL_EPSILON = 1 / 2 ^ 52"

subsection \<open>Data of the driver\<close>

text \<open>
  Of a \<^verbatim>\<open>SIFT3D_Descriptor\<close> the driver reads the coordinates only; of a \<^verbatim>\<open>Mat_rm\<close> the
  dimensions and the elements. The structures it only passes on (\<^verbatim>\<open>Ransac\<close>, \<^verbatim>\<open>Affine\<close>,
  \<^verbatim>\<open>Keypoint_store\<close>, the detector with its pyramids, the extractor) are type parameters.
\<close>

record SIFT3D_Descriptor =
  xd :: real
  yd :: real
  zd :: real

record Mat_rm =
  num_rows :: int
  num_cols :: int
  MAT_RM_GET :: "int \<Rightarrow> int \<Rightarrow> real"

datatype tform_type = AFFINE

text \<open>
  The files of the driver: a path of the command line or a string literal, and the
  debugging paths, whose macros build on \<^verbatim>\<open>DEBUG_ROOT\<close> of a header that is not among the
  sources.
\<close>

datatype file_path =
    Path string
  | TFORM_IN_PATH | TFORM_REG_PATH | IM_OUT_PATH | GRID_PATH
  | KP_SRC_IM_PATH | KP_REF_IM_PATH | BG_PATH | OVERLAY_PATH

text \<open>
  What the driver does to the outside, in order: the lines it prints and the library
  functions it calls, with the arguments they receive. The initialisers that cannot fail
  and the release of the two input images are left out, except \<^verbatim>\<open>init_Ransac\<close>. The
  debugging dumps of the \<^verbatim>\<open>VERBOSE\<close> build are left out too, except the statistics.
\<close>

datatype ('ran, 'aff, 'kp, 'det, 'ext) call =
    Puts string
  | Call_init_Ransac real real int
  | Call_init_Mat_rm int int bool
  | Call_read_nii string
  | Call_Affine_set_mat Mat_rm 'aff
  | Call_im_inv_transform Image tform_type 'aff
  | Call_init_im_first_time Image int int int
  | Call_im_pad Image Image
  | Call_init_SIFT3D_Detector int
  | Call_init_SIFT3D_Extractor
  | Call_SIFT3D_detect_keypoints 'det Image
  | Call_SIFT3D_extract_descriptors 'ext 'det 'kp bool
  | Call_SIFT3D_nn_match_fb "SIFT3D_Descriptor list" "SIFT3D_Descriptor list" real
  | Call_SIFT3D_matches_to_Mat_rm "SIFT3D_Descriptor list" "SIFT3D_Descriptor list" "int list"
  | Call_find_tform_ransac 'ran Mat_rm Mat_rm int tform_type 'aff
  | Call_write_nii file_path Image
  | Print_statistics int int int int int real real

text \<open>
  How a run of \<^verbatim>\<open>main\<close> ends: by \<^verbatim>\<open>return\<close> with an exit code, in \<^verbatim>\<open>err_exit\<close> with its
  message (the macro is not among the sources), or in a read outside an array.
\<close>

datatype exit_status = Return int | Err_exit string | Out_of_bounds

text \<open>
  The library the driver calls (sift.c, reg.c and imutil.c are not among the sources, nor
  is macros.h with \<^verbatim>\<open>MAX\<close> and \<^verbatim>\<open>MIN\<close>, here \<open>MAX_macro\<close> and \<open>MIN_macro\<close>): each function that reports failure gives \<open>None\<close>
  for a non-zero return code and otherwise the value it leaves in its output argument.
  \<open>init_im_value\<close> is the image \<^verbatim>\<open>init_im\<close> sets up; \<open>debug_ok\<close> tells whether a guarded
  group of debugging calls, named by its \<^verbatim>\<open>err_exit\<close> message, succeeds.
\<close>

record ('ran, 'aff, 'kp, 'det, 'ext) driver_env =
  init_Ransac :: "real \<Rightarrow> real \<Rightarrow> int \<Rightarrow> 'ran"
  init_Affine :: "int \<Rightarrow> 'aff"
  init_Keypoint_store :: 'kp
  init_im_value :: Image
  init_Mat_rm :: "int \<Rightarrow> int \<Rightarrow> bool \<Rightarrow> Mat_rm option"
  read_nii :: "string \<Rightarrow> Image option"
  UTIL_PI :: real
  MAX_macro :: "int \<Rightarrow> int \<Rightarrow> int"
  MIN_macro :: "real \<Rightarrow> real \<Rightarrow> real"
  Affine_set_mat :: "Mat_rm \<Rightarrow> 'aff \<Rightarrow> 'aff option"
  im_inv_transform :: "Image \<Rightarrow> tform_type \<Rightarrow> 'aff \<Rightarrow> Image option"
  init_im_first_time :: "Image \<Rightarrow> int \<Rightarrow> int \<Rightarrow> int \<Rightarrow> Image option"
  im_pad :: "Image \<Rightarrow> Image \<Rightarrow> Image option"
  init_SIFT3D_Detector :: "int \<Rightarrow> 'det option"
  init_SIFT3D_Extractor :: "'ext option"
  SIFT3D_detect_keypoints :: "'det \<Rightarrow> Image \<Rightarrow> 'kp \<Rightarrow> ('det \<times> 'kp) option"
  SIFT3D_extract_descriptors ::
    "'ext \<Rightarrow> 'det \<Rightarrow> 'kp \<Rightarrow> bool \<Rightarrow> SIFT3D_Descriptor list option"
  SIFT3D_nn_match_fb ::
    "SIFT3D_Descriptor list \<Rightarrow> SIFT3D_Descriptor list \<Rightarrow> real \<Rightarrow> int list option"
  SIFT3D_matches_to_Mat_rm ::
    "SIFT3D_Descriptor list \<Rightarrow> SIFT3D_Descriptor list \<Rightarrow> int list \<Rightarrow> (Mat_rm \<times> Mat_rm) option"
  find_tform_ransac ::
    "'ran \<Rightarrow> Mat_rm \<Rightarrow> Mat_rm \<Rightarrow> int \<Rightarrow> tform_type \<Rightarrow> 'aff \<Rightarrow> 'aff option"
  write_nii :: "file_path \<Rightarrow> Image \<Rightarrow> unit option"
  apply_tform_xyz :: "real \<Rightarrow> real \<Rightarrow> real \<Rightarrow> tform_type \<Rightarrow> 'aff \<Rightarrow> real \<times> real \<times> real"
  debug_ok :: "string \<Rightarrow> bool"

subsection \<open>The precision and recall diagnostic of the synthetic mode\<close>

text \<open>
  \<^verbatim>\<open>double\<close> is modelled by the reals, as \<^verbatim>\<open>float\<close> is in the DICOM part: rounding and
  overflow of the squares are not modelled.
\<close>

datatype classification = True_positive | False_positive | True_negative | False_negative

text \<open>
  The error between a reference feature and the ground truth \<open>(xst, yst, zst)\<close>, squared:
  \<^verbatim>\<open>dx * dx + dy * dy + dz * dz\<close>.
\<close>

definition err_sq_to :: "real \<Rightarrow> real \<Rightarrow> real \<Rightarrow> SIFT3D_Descriptor \<Rightarrow> real" where
  "err_sq_to xst yst zst dr =
     (let dx = xst - xd dr; dy = yst - yd dr; dz = zst - zd dr
      in dx * dx + dy * dy + dz * dz)"

text \<open>
  The inner loop: the least squared error between the ground truth and a reference
  feature, starting from \<^verbatim>\<open>DBL_MAX\<close>.
\<close>

fun nearest_err_sq ::
  "('ran, 'aff, 'kp, 'det, 'ext, 'z) driver_env_scheme \<Rightarrow> real \<Rightarrow> real \<Rightarrow> real
     \<Rightarrow> SIFT3D_Descriptor list \<Rightarrow> real \<Rightarrow> real" where
  "nearest_err_sq E xst yst zst [] min_err_sq = min_err_sq"
| "nearest_err_sq E xst yst zst (dr # rest) min_err_sq =
     nearest_err_sq E xst yst zst rest (MIN_macro E min_err_sq (err_sq_to xst yst zst dr))"

text \<open>
  The body of the loop over the source features, for the feature \<open>ds\<close> and its entry
  \<open>match_idx\<close> of \<^verbatim>\<open>matches\<close>; each \<^verbatim>\<open>continue\<close> and the two increments are the four results.
  \<open>None\<close>: \<open>match_idx\<close> is not an index of the reference features.
\<close>

definition classify ::
  "('ran, 'aff, 'kp, 'det, 'ext, 'z) driver_env_scheme \<Rightarrow> 'aff \<Rightarrow> SIFT3D_Descriptor list
     \<Rightarrow> SIFT3D_Descriptor \<Rightarrow> int \<Rightarrow> classification option" where
  "classify E aff_syn desc_ref ds match_idx =
     (case apply_tform_xyz E (xd ds) (yd ds) (zd ds) AFFINE aff_syn of (xst, yst, zst) \<Rightarrow>
      let match = (match_idx \<ge> 0);
          min_err = sqrt (nearest_err_sq E xst yst zst desc_ref DBL_MAX) in
      if match then
        (if int (length desc_ref) \<le> match_idx then None
         else
           let match_err = sqrt (err_sq_to xst yst zst (desc_ref ! nat match_idx)) in
           if match_err > ERR_THRESH then Some False_positive
           else if min_err < match_err - 1.0 then Some False_positive
           else Some True_positive)
      else if min_err < ERR_THRESH then Some False_negative
      else Some True_negative)"

text \<open>
  The loop \<^verbatim>\<open>for (i = 0; i < num_src; i++)\<close> over the indices still to visit, with the two
  counters. \<open>None\<close>: a read outside \<^verbatim>\<open>matches\<close> or outside the reference features.
\<close>

fun count_true ::
  "('ran, 'aff, 'kp, 'det, 'ext, 'z) driver_env_scheme \<Rightarrow> 'aff \<Rightarrow> SIFT3D_Descriptor list
     \<Rightarrow> SIFT3D_Descriptor list \<Rightarrow> int list \<Rightarrow> nat list \<Rightarrow> int \<times> int \<Rightarrow> (int \<times> int) option" where
  "count_true E aff_syn desc_ref desc_src matches [] counts = Some counts"
| "count_true E aff_syn desc_ref desc_src matches (i # rest) counts =
     (if length matches \<le> i then None
      else
        (case classify E aff_syn desc_ref (desc_src ! i) (matches ! i) of
           None \<Rightarrow> None
         | Some True_positive \<Rightarrow>
             count_true E aff_syn desc_ref desc_src matches rest (fst counts + 1, snd counts)
         | Some True_negative \<Rightarrow>
             count_true E aff_syn desc_ref desc_src matches rest (fst counts, snd counts + 1)
         | Some False_positive \<Rightarrow>
             count_true E aff_syn desc_ref desc_src matches rest counts
         | Some False_negative \<Rightarrow>
             count_true E aff_syn desc_ref desc_src matches rest counts))"

subsection \<open>main\<close>

text \<open>
  A run is how it ends and what it did to the outside until then. \<open>emit\<close> puts events in
  front of the rest of a run. \<open>checked\<close> is the pattern
  \<^verbatim>\<open>if (f(...)) err_exit(msg);\<close>: the call is made; when it fails the run ends in
  \<^verbatim>\<open>err_exit\<close>, otherwise it goes on with the value the call produced. \<open>debug_checked\<close> is
  a guarded group of debugging calls, present in the \<^verbatim>\<open>VERBOSE\<close> build only.
\<close>

definition emit :: "'c list \<Rightarrow> exit_status \<times> 'c list \<Rightarrow> exit_status \<times> 'c list" where
  "emit evs rest = (fst rest, evs @ snd rest)"

definition checked ::
  "'c \<Rightarrow> 'a option \<Rightarrow> string \<Rightarrow> ('a \<Rightarrow> exit_status \<times> 'c list) \<Rightarrow> exit_status \<times> 'c list" where
  "checked ev r msg cont =
     (case r of None \<Rightarrow> (Err_exit msg, [ev]) | Some v \<Rightarrow> emit [ev] (cont v))"

definition debug_checked ::
  "('ran, 'aff, 'kp, 'det, 'ext, 'z) driver_env_scheme \<Rightarrow> bool \<Rightarrow> string
     \<Rightarrow> exit_status \<times> 'c list \<Rightarrow> exit_status \<times> 'c list" where
  "debug_checked E VERBOSE msg rest =
     (if VERBOSE \<and> \<not> debug_ok E msg then (Err_exit msg, []) else rest)"

text \<open>
  \<^verbatim>\<open>main\<close> is given in three parts: \<open>main_verbose_end\<close> is the last \<^verbatim>\<open>VERBOSE\<close> block (the
  statistics and the deformation grid), \<open>main_register\<close> the part from the padding of the
  two loaded images to the saving of the registered image, \<open>main\<close> the part before, which
  parses the arguments, initialises the data and loads the images. \<open>VERBOSE\<close> tells whether
  the macro of that name is defined; \<open>argv\<close> is the argument vector, \<open>argv ! 0\<close> the program
  name, so \<^verbatim>\<open>argc\<close> is its length. The trailing blanks and line feeds of the messages and
  the elapsed time are left out.
\<close>

definition main_verbose_end ::
  "('ran, 'aff, 'kp, 'det, 'ext, 'z) driver_env_scheme \<Rightarrow> bool \<Rightarrow> 'aff
     \<Rightarrow> SIFT3D_Descriptor list \<Rightarrow> SIFT3D_Descriptor list \<Rightarrow> int list \<Rightarrow> Mat_rm
     \<Rightarrow> exit_status \<times> ('ran, 'aff, 'kp, 'det, 'ext) call list" where
  "main_verbose_end E syn_mode aff_syn desc_src desc_ref matches match_src =
     (let num_ref = int (length desc_ref);
          num_src = int (length desc_src);
          num_pos = num_rows match_src;
          num_neg = num_src - num_pos;
          grid_end =
            debug_checked E True ''write inferred transform matrix to file''
            (debug_checked E True ''print result matrix''
            (debug_checked E True ''make grid''
            (debug_checked E True ''deform grid''
            (debug_checked E True ''write deformation grid to file''
            (Return 0, [])))))
      in
      if syn_mode then
        (case count_true E aff_syn desc_ref desc_src matches [0..<length desc_src] (0, 0) of
           None \<Rightarrow> (Out_of_bounds, [])
         | Some counts \<Rightarrow>
             (let num_true_pos = fst counts;
                  num_true_neg = snd counts;
                  num_false_neg = num_neg - num_true_neg;
                  precision = real_of_int num_true_pos / (real_of_int num_pos + DBL_EPSILON);
                  recall = real_of_int num_true_pos /
                             (real_of_int (num_true_pos + num_false_neg) + DBL_EPSILON)
              in emit [Print_statistics num_src num_true_pos num_pos num_true_neg num_neg
                         precision recall]
                   grid_end))
      else grid_end)"

definition main_register ::
  "('ran, 'aff, 'kp, 'det, 'ext, 'z) driver_env_scheme \<Rightarrow> bool \<Rightarrow> bool \<Rightarrow> 'ran \<Rightarrow> 'aff \<Rightarrow> 'aff
     \<Rightarrow> Image \<Rightarrow> Image \<Rightarrow> exit_status \<times> ('ran, 'aff, 'kp, 'det, 'ext) call list" where
  "main_register E VERBOSE syn_mode ransac aff_syn aff_reg src ref =
     (let kp_src = init_Keypoint_store E;
          kp_ref = init_Keypoint_store E;
          srcp = init_im_value E;
          refp = init_im_value E;
          nx = MAX_macro E (Image.nx src) (Image.nx ref);
          ny = MAX_macro E (Image.ny src) (Image.ny ref);
          nz = MAX_macro E (Image.nz src) (Image.nz ref)
      in
      checked (Call_init_im_first_time srcp nx ny nz) (init_im_first_time E srcp nx ny nz)
        ''pad images''
      (\<lambda>srcp.
      checked (Call_init_im_first_time refp nx ny nz) (init_im_first_time E refp nx ny nz)
        ''pad images''
      (\<lambda>refp.
      checked (Call_im_pad src srcp) (im_pad E src srcp) ''pad images''
      (\<lambda>srcp.
      checked (Call_im_pad ref refp) (im_pad E ref refp) ''pad images''
      (\<lambda>refp.
      checked (Call_init_SIFT3D_Detector 0) (init_SIFT3D_Detector E 0) ''init sift detector''
      (\<lambda>detector.
      checked Call_init_SIFT3D_Extractor (init_SIFT3D_Extractor E) ''init sift extractor''
      (\<lambda>extractor.
      checked (Call_SIFT3D_detect_keypoints detector refp)
        (SIFT3D_detect_keypoints E detector refp kp_ref) ''detect source keypoints''
      (\<lambda>detected_ref.
      checked (Call_SIFT3D_extract_descriptors extractor (fst detected_ref) (snd detected_ref) True)
        (SIFT3D_extract_descriptors E extractor (fst detected_ref) (snd detected_ref) True)
        ''extract source descriptors''
      (\<lambda>desc_ref.
      debug_checked E VERBOSE ''write input images''
      (debug_checked E VERBOSE ''write keypoints''
      (debug_checked E VERBOSE ''draw reference keypoints''
      (checked (Call_SIFT3D_detect_keypoints (fst detected_ref) srcp)
        (SIFT3D_detect_keypoints E (fst detected_ref) srcp kp_src) ''detect source keypoints''
      (\<lambda>detected_src.
      checked (Call_SIFT3D_extract_descriptors extractor (fst detected_src) (snd detected_src) True)
        (SIFT3D_extract_descriptors E extractor (fst detected_src) (snd detected_src) True)
        ''extract source descriptors''
      (\<lambda>desc_src.
      debug_checked E VERBOSE ''write keypoints''
      (debug_checked E VERBOSE ''draw source keypoints''
      (checked (Call_SIFT3D_nn_match_fb desc_src desc_ref NN_THRESH)
        (SIFT3D_nn_match_fb E desc_src desc_ref NN_THRESH) ''match keypoints''
      (\<lambda>matches.
      checked (Call_SIFT3D_matches_to_Mat_rm desc_src desc_ref matches)
        (SIFT3D_matches_to_Mat_rm E desc_src desc_ref matches) ''extract coordinate matrices''
      (\<lambda>matched.
      debug_checked E VERBOSE ''write matches to file''
      (debug_checked E VERBOSE ''draw matches''
      (debug_checked E VERBOSE ''save feature images''
      (checked (Call_find_tform_ransac ransac (fst matched) (snd matched) 3 AFFINE aff_reg)
        (find_tform_ransac E ransac (fst matched) (snd matched) 3 AFFINE aff_reg) ''fit transform''
      (\<lambda>aff_reg.
      checked (Call_im_inv_transform srcp AFFINE aff_reg)
        (im_inv_transform E srcp AFFINE aff_reg) ''apply image transform''
      (\<lambda>srcp_reg.
      emit [Puts ''Registration of source image completed'']
      (checked (Call_write_nii IM_OUT_PATH srcp_reg) (write_nii E IM_OUT_PATH srcp_reg)
        ''write registered image''
      (\<lambda>written.
      if VERBOSE
      then main_verbose_end E syn_mode aff_syn desc_src desc_ref matches (fst matched)
      else (Return 0, []))))))))))))))))))))))))))"

definition main ::
  "('ran, 'aff, 'kp, 'det, 'ext, 'z) driver_env_scheme \<Rightarrow> bool \<Rightarrow> string list
     \<Rightarrow> exit_status \<times> ('ran, 'aff, 'kp, 'det, 'ext) call list" where
  "main E VERBOSE argv =
     (let argc = int (length argv) in
      if argc < 2 then
        (Return 1,
         [Puts ''Usage: siftreg [source image] [reference image] Only use im1 for synthetic''])
      else
        (let syn_mode = (argc < 3);
             ref_path = argv ! 1;
             aff_syn = init_Affine E 3;
             aff_reg = init_Affine E 3;
             ransac = init_Ransac E MIN_INLIER_RATIO ERR_THRESH NUM_ITER
         in
         emit [Puts (if syn_mode then ''Registering synthetic data'' else ''Registering real data''),
               Call_init_Ransac MIN_INLIER_RATIO ERR_THRESH NUM_ITER]
         (checked (Call_init_Mat_rm 0 0 False) (init_Mat_rm E 0 0 False) ''init data''
         (\<lambda>match_src.
         checked (Call_init_Mat_rm 0 0 False) (init_Mat_rm E 0 0 False) ''init data''
         (\<lambda>match_ref.
         checked (Call_init_Mat_rm 3 4 True) (init_Mat_rm E 3 4 True) ''init data''
         (\<lambda>A.
         checked (Call_read_nii ref_path) (read_nii E ref_path) ''load ref image''
         (\<lambda>ref.
         if syn_mode then
           (let ang_deg = 5.0;
                ang_rad = ang_deg * UTIL_PI E / 180.0;
                A = A\<lparr>MAT_RM_GET := (MAT_RM_GET A)
                        (0 := (MAT_RM_GET A 0)(0 := cos ang_rad, 1 := - sin ang_rad),
                         1 := (MAT_RM_GET A 1)(0 := sin ang_rad, 1 := cos ang_rad),
                         2 := (MAT_RM_GET A 2)(2 := 1.0))\<rparr>
            in
            checked (Call_Affine_set_mat A aff_syn) (Affine_set_mat E A aff_syn)
              ''set affine matrix''
            (\<lambda>aff_syn.
            checked (Call_im_inv_transform ref AFFINE aff_syn)
              (im_inv_transform E ref AFFINE aff_syn) ''apply image transform''
            (\<lambda>src.
            debug_checked E VERBOSE ''write input transform matrix to file''
            (debug_checked E VERBOSE ''print input matrix''
            (main_register E VERBOSE syn_mode ransac aff_syn aff_reg src ref)))))
         else
           (let src_path = argv ! 2
            in
            checked (Call_read_nii src_path) (read_nii E src_path) ''load src image''
            (\<lambda>src. main_register E VERBOSE syn_mode ransac aff_syn aff_reg src ref)))))))))"

subsection \<open>What the driver expects of the library\<close>

text \<open>
  The run in which nothing fails: every library function the driver calls returns success
  for every argument, the debugging dumps succeed, and \<^verbatim>\<open>SIFT3D_nn_match_fb\<close> gives an entry
  for every source feature, each negative or an index of a reference feature.
\<close>

definition library_succeeds :: "('ran, 'aff, 'kp, 'det, 'ext, 'z) driver_env_scheme \<Rightarrow> bool" where
  "library_succeeds E \<longleftrightarrow>
     (\<forall>r c zero. init_Mat_rm E r c zero \<noteq> None) \<and>
     (\<forall>p. read_nii E p \<noteq> None) \<and>
     (\<forall>A aff. Affine_set_mat E A aff \<noteq> None) \<and>
     (\<forall>im t aff. im_inv_transform E im t aff \<noteq> None) \<and>
     (\<forall>im x y z. init_im_first_time E im x y z \<noteq> None) \<and>
     (\<forall>im pad. im_pad E im pad \<noteq> None) \<and>
     (\<forall>first_octave. init_SIFT3D_Detector E first_octave \<noteq> None) \<and>
     init_SIFT3D_Extractor E \<noteq> None \<and>
     (\<forall>detector im kp. SIFT3D_detect_keypoints E detector im kp \<noteq> None) \<and>
     (\<forall>extractor pyr kp use_gpyr. SIFT3D_extract_descriptors E extractor pyr kp use_gpyr \<noteq> None) \<and>
     (\<forall>d1 d2 nn_thresh. SIFT3D_nn_match_fb E d1 d2 nn_thresh \<noteq> None) \<and>
     (\<forall>d1 d2 ms. SIFT3D_matches_to_Mat_rm E d1 d2 ms \<noteq> None) \<and>
     (\<forall>ransac src_pts ref_pts dim t aff.
        find_tform_ransac E ransac src_pts ref_pts dim t aff \<noteq> None) \<and>
     (\<forall>p im. write_nii E p im \<noteq> None) \<and>
     (\<forall>msg. debug_ok E msg) \<and>
     (\<forall>d1 d2 nn_thresh ms. SIFT3D_nn_match_fb E d1 d2 nn_thresh = Some ms \<longrightarrow>
        length d1 \<le> length ms \<and> (\<forall>m \<in> set ms. m < int (length d2)))"

text \<open>
  The contract of the two padding functions and of \<^verbatim>\<open>MAX\<close>: \<^verbatim>\<open>init_im_first_time\<close> gives an
  image of the dimensions asked for, \<^verbatim>\<open>im_pad\<close> leaves the dimensions of its destination as
  they are, \<^verbatim>\<open>MAX\<close> is the maximum.
\<close>

definition padding_contract :: "('ran, 'aff, 'kp, 'det, 'ext, 'z) driver_env_scheme \<Rightarrow> bool" where
  "padding_contract E \<longleftrightarrow>
     (\<forall>im x y z im'. init_im_first_time E im x y z = Some im' \<longrightarrow>
        nx im' = x \<and> ny im' = y \<and> nz im' = z) \<and>
     (\<forall>im pad pad'. im_pad E im pad = Some pad' \<longrightarrow>
        nx pad' = nx pad \<and> ny pad' = ny pad \<and> nz pad' = nz pad) \<and>
     MAX_macro E = max"

section \<open>Concrete files and worlds\<close>

text \<open>
  A two-column, one-row monochrome file of 32-bit depth whose frame \<open>i\<close> holds the words
  \<open>v + k\<close> at position \<open>k\<close>, and a world in which every path is a readable directory listing
  \<open>names\<close>, the names ending in \<open>m\<close> are DICOM files, and \<^verbatim>\<open>std::sort\<close> is insertion sort.
\<close>

definition example_file :: "string \<Rightarrow> int \<Rightarrow> int \<Rightarrow> 32 word \<Rightarrow> dcm_file" where
  "example_file uid inst frames v =
     \<lparr>loadFile_good = True, SeriesInstanceUID = Some uid, InstanceNumber = Some inst,
      image_status_normal = True, isMonochrome = True,
      getWidth = 2, getHeight = 1, getFrameCount = frames,
      PixelSpacing = Some 1, getHeightWidthRatio = 1, SliceThickness = Some 1,
      getDepth = 32,
      getOutputData = (\<lambda>i. if 0 \<le> i \<and> i < frames then Some (\<lambda>k. v + of_nat k) else None)\<rparr>"

definition blank_image :: Image where
  "blank_image = \<lparr>nx = 0, ny = 0, nz = 0, nc = 0, ux = 0, uy = 0, uz = 0,
                   data = (\<lambda>x y z c. 0)\<rparr>"

definition example_world :: "(string \<Rightarrow> dcm_file) \<Rightarrow> string list \<Rightarrow> dcm_world" where
  "example_world files names =
     \<lparr>stat_path = (\<lambda>p. Is_a_directory), opendir_ok = (\<lambda>p. True),
      readdir_names = (\<lambda>p. names), file_sep = CHR ''/'',
      im_get_format = (\<lambda>p. if last p = CHR ''m'' then DICOM else UNKNOWN_FORMAT),
      im_resize_ok = (\<lambda>im. True), init_im = blank_image, dcm_at = files,
      little_endian = True, float_of_uint32 = (\<lambda>w. real (unat w)),
      string_ctor_ok = (\<lambda>s. True), std_sort = sort_key instance_number\<rparr>"

text \<open>Two files of one series, enumerated against their instance numbers.\<close>

definition two_files :: "string \<Rightarrow> dcm_file" where
  "two_files p = (if p = ''d/a.dcm'' then example_file ''1.2.3'' 1 1 10
                  else example_file ''1.2.3'' 2 2 20)"

definition two_world :: dcm_world where
  "two_world = example_world two_files [''.'', ''b.dcm'', ''a.dcm'']"

text \<open>The same directory with the second file from another series.\<close>

definition mixed_files :: "string \<Rightarrow> dcm_file" where
  "mixed_files p = (if p = ''d/a.dcm'' then example_file ''1.2.3'' 1 1 10
                    else example_file ''1.2.4'' 2 2 20)"

definition mixed_world :: dcm_world where
  "mixed_world = example_world mixed_files [''.'', ''b.dcm'', ''a.dcm'']"

text \<open>
  A writer's world in which every library call succeeds: the index macro with the default
  strides, \<^verbatim>\<open>im_max_abs\<close> as the largest absolute voxel value, and a UID generator that
  appends a counter to the root. \<open>failing\<close> names the paths whose \<^verbatim>\<open>std::string\<close> cannot be
  allocated, \<open>no_memory\<close> tells whether \<^verbatim>\<open>new\<close> fails.
\<close>

definition example_uid :: "uid_root \<Rightarrow> nat \<Rightarrow> string" where
  "example_uid r n =
     (case r of
        SITE_STUDY_UID_ROOT \<Rightarrow> ''1.2.276.0.7230010.3.1.2''
      | SITE_SERIES_UID_ROOT \<Rightarrow> ''1.2.276.0.7230010.3.1.3''
      | SITE_INSTANCE_UID_ROOT \<Rightarrow> ''1.2.276.0.7230010.3.1.4'') @ CHR ''.'' # replicate (Suc n) CHR ''7''"

definition example_writer :: "string list \<Rightarrow> bool \<Rightarrow> write_world" where
  "example_writer failing no_memory =
     \<lparr>stat_path = (\<lambda>p. Is_a_directory), opendir_ok = (\<lambda>p. True),
      readdir_names = (\<lambda>p. []), file_sep = CHR ''/'',
      im_get_format = (\<lambda>p. UNKNOWN_FORMAT),
      im_resize_ok = (\<lambda>im. True), init_im = blank_image,
      dcm_at = (\<lambda>p. example_file [] 0 0 0),
      little_endian = True, float_of_uint32 = (\<lambda>w. real (unat w)),
      string_ctor_ok = (\<lambda>s. s \<notin> set failing), std_sort = sort_key instance_number,
      put_good = (\<lambda>tag. True), new_ok = (\<lambda>n. \<not> no_memory),
      canWriteXfer = (\<lambda>xfer. True), saveFile_good = (\<lambda>p. True),
      im_max_abs = (\<lambda>im. foldr (\<lambda>(x, y, z, c) m. max \<bar>data im x y z c\<bar> m) (im_loop_c im) 0),
      IM_GET_IDX = (\<lambda>im x y z c. c + x * nc im + y * nc im * nx im + z * nc im * nx im * ny im),
      dcmGenerateUniqueIdentifier = example_uid,
      slice_file_name = (\<lambda>n i. replicate (nat i) CHR ''0'' @ ''.dcm'')\<rparr>"

text \<open>
  Images of one row and one slice whose voxels are listed, in one channel or in three.
\<close>

definition row_image :: "int \<Rightarrow> real list \<Rightarrow> Image" where
  "row_image channels vs =
     \<lparr>nx = int (length vs), ny = 1, nz = 1, nc = channels, ux = 1, uy = 1, uz = 1,
      data = (\<lambda>x y z c. if 0 \<le> x \<and> nat x < length vs then vs ! nat x else 0)\<rparr>"

text \<open>The pixel array saved under a path, if a file was saved there with one.\<close>

definition saved_pixels :: "saved_files \<Rightarrow> string \<Rightarrow> 8 word option list option" where
  "saved_pixels fs path =
     (case fs path of
        None \<Rightarrow> None
      | Some (dataset, xfer) \<Rightarrow>
          (case dataset DCM_PixelData of Some (Uint8Array pixelData) \<Rightarrow> Some pixelData | _ \<Rightarrow> None))"

text \<open>The reader's world \<open>two_world\<close> when no \<^verbatim>\<open>std::string\<close> can be allocated.\<close>

definition no_memory_world :: dcm_world where
  "no_memory_world = two_world\<lparr>string_ctor_ok := (\<lambda>s. False)\<rparr>"

text \<open>
  The pixel array in the words of the specification, for comparison with the one the code
  saves: every voxel times 255 divided by the image maximum.
\<close>

definition spec_scaled_pixels :: "'a write_world_scheme \<Rightarrow> Image \<Rightarrow> 8 word option list" where
  "spec_scaled_pixels E im =
     map (\<lambda>(x, y, z, c). uint8_of_float (data im x y z c * (255 / im_max_abs E im)))
       (im_loop_c im)"

subsection \<open>A library for the driver\<close>

text \<open>
  A library in which every call succeeds: \<open>ref.nii\<close> is a volume of 4 by 1 by 3 voxels,
  any other file one of 2 by 5 by 3; \<^verbatim>\<open>init_im_first_time\<close> sets the dimensions, \<^verbatim>\<open>im_pad\<close>
  keeps those of its destination; every image has the features \<open>features\<close>, matched as
  \<open>matched\<close> tells (where that is an index of a feature, and unmatched otherwise); the ground truth of the synthetic mode is the identity.
\<close>

definition example_volume :: "int \<Rightarrow> int \<Rightarrow> int \<Rightarrow> Image" where
  "example_volume w h d = blank_image\<lparr>nx := w, ny := h, nz := d, nc := 1\<rparr>"

definition example_descriptor :: "real \<Rightarrow> real \<Rightarrow> real \<Rightarrow> SIFT3D_Descriptor" where
  "example_descriptor x y z = \<lparr>xd = x, yd = y, zd = z\<rparr>"

definition example_Mat_rm :: "int \<Rightarrow> int \<Rightarrow> Mat_rm" where
  "example_Mat_rm r c = \<lparr>num_rows = r, num_cols = c, MAT_RM_GET = (\<lambda>i j. 0)\<rparr>"

definition example_driver ::
  "SIFT3D_Descriptor list \<Rightarrow> int list \<Rightarrow> (unit, unit, unit, unit, unit) driver_env" where
  "example_driver features matched =
     \<lparr>init_Ransac = (\<lambda>min_inliers err_thresh num_iter. ()),
      init_Affine = (\<lambda>dim. ()),
      init_Keypoint_store = (),
      init_im_value = blank_image,
      init_Mat_rm = (\<lambda>r c zero. Some (example_Mat_rm r c)),
      read_nii = (\<lambda>p. Some (if p = ''ref.nii'' then example_volume 4 1 3
                              else example_volume 2 5 3)),
      UTIL_PI = pi,
      MAX_macro = max,
      MIN_macro = min,
      Affine_set_mat = (\<lambda>A aff. Some aff),
      im_inv_transform = (\<lambda>im t aff. Some im),
      init_im_first_time = (\<lambda>im x y z. Some (im\<lparr>nx := x, ny := y, nz := z\<rparr>)),
      im_pad = (\<lambda>im pad. Some pad),
      init_SIFT3D_Detector = (\<lambda>first_octave. Some ()),
      init_SIFT3D_Extractor = Some (),
      SIFT3D_detect_keypoints = (\<lambda>detector im kp. Some ((), ())),
      SIFT3D_extract_descriptors = (\<lambda>extractor pyr kp use_gpyr. Some features),
      SIFT3D_nn_match_fb =
        (\<lambda>d1 d2 nn_thresh.
           Some (map (\<lambda>i. if i < length matched \<and> matched ! i < int (length d2)
                          then matched ! i else - 1) [0..<length d1])),
      SIFT3D_matches_to_Mat_rm =
        (\<lambda>d1 d2 ms. Some (example_Mat_rm (int (length (filter (\<lambda>m. 0 \<le> m) ms))) 3,
                           example_Mat_rm (int (length (filter (\<lambda>m. 0 \<le> m) ms))) 3)),
      find_tform_ransac = (\<lambda>ransac src_pts ref_pts dim t aff. Some aff),
      write_nii = (\<lambda>p im. Some ()),
      apply_tform_xyz = (\<lambda>x y z t aff. (x, y, z)),
      debug_ok = (\<lambda>msg. True)\<rparr>"

section \<open>Properties of the DICOM reader\<close>

subsection \<open>The constructor and the loops\<close>

lemma Dicom_ctor_name: "name (Dicom_ctor p f) = p"
  by (auto simp: Dicom_ctor_def Dicom_blank_def Let_def split: if_splits option.splits)

lemma Dicom_ctor_valid:
  assumes "isValid (Dicom_ctor p f)"
  shows "Dicom_ctor p f =
           \<lparr>name = p, seriesUID = the (SeriesInstanceUID f),
            instance_number = the (InstanceNumber f),
            getUx = the (PixelSpacing f),
            getUy = the (PixelSpacing f) * getHeightWidthRatio f,
            getUz = the (SliceThickness f),
            getNx = getWidth f, getNy = getHeight f, getNz = getFrameCount f, getNc = 1,
            isValid = True\<rparr> \<and>
         loadFile_good f \<and> SeriesInstanceUID f \<noteq> None \<and> InstanceNumber f \<noteq> None \<and>
         image_status_normal f \<and> isMonochrome f \<and>
         1 \<le> getWidth f \<and> 1 \<le> getHeight f \<and> 1 \<le> getFrameCount f"
  using assms
  by (simp add: Dicom_ctor_def Dicom_blank_def Let_def split: if_splits option.splits)

lemma Dicom_of_valid:
  assumes "isValid (Dicom_of W p)"
  shows "name (Dicom_of W p) = p"
    and "getNx (Dicom_of W p) = getWidth (dcm_at W p)"
    and "getNy (Dicom_of W p) = getHeight (dcm_at W p)"
    and "getNz (Dicom_of W p) = getFrameCount (dcm_at W p)"
    and "getNc (Dicom_of W p) = 1"
    and "SeriesInstanceUID (dcm_at W p) = Some (seriesUID (Dicom_of W p))"
    and "InstanceNumber (dcm_at W p) = Some (instance_number (Dicom_of W p))"
    and "image_status_normal (dcm_at W p)"
    and "1 \<le> getWidth (dcm_at W p)" and "1 \<le> getHeight (dcm_at W p)"
    and "1 \<le> getFrameCount (dcm_at W p)"
proof -
  from assms have v: "isValid (Dicom_ctor p (dcm_at W p))" by (simp add: Dicom_of_def)
  note c = Dicom_ctor_valid[OF v]
  from c have eq: "Dicom_of W p =
           \<lparr>name = p, seriesUID = the (SeriesInstanceUID (dcm_at W p)),
            instance_number = the (InstanceNumber (dcm_at W p)),
            getUx = the (PixelSpacing (dcm_at W p)),
            getUy = the (PixelSpacing (dcm_at W p)) * getHeightWidthRatio (dcm_at W p),
            getUz = the (SliceThickness (dcm_at W p)),
            getNx = getWidth (dcm_at W p), getNy = getHeight (dcm_at W p),
            getNz = getFrameCount (dcm_at W p), getNc = 1,
            isValid = True\<rparr>"
    unfolding Dicom_of_def by (rule conjunct1)
  show "name (Dicom_of W p) = p" by (simp add: eq)
  show "getNx (Dicom_of W p) = getWidth (dcm_at W p)" by (simp add: eq)
  show "getNy (Dicom_of W p) = getHeight (dcm_at W p)" by (simp add: eq)
  show "getNz (Dicom_of W p) = getFrameCount (dcm_at W p)" by (simp add: eq)
  show "getNc (Dicom_of W p) = 1" by (simp add: eq)
  from c have "SeriesInstanceUID (dcm_at W p) \<noteq> None" by simp
  then show "SeriesInstanceUID (dcm_at W p) = Some (seriesUID (Dicom_of W p))"
    by (auto simp: eq)
  from c have "InstanceNumber (dcm_at W p) \<noteq> None" by simp
  then show "InstanceNumber (dcm_at W p) = Some (instance_number (Dicom_of W p))"
    by (auto simp: eq)
  from c show "image_status_normal (dcm_at W p)" by simp
  from c show "1 \<le> getWidth (dcm_at W p)" by simp
  from c show "1 \<le> getHeight (dcm_at W p)" by simp
  from c show "1 \<le> getFrameCount (dcm_at W p)" by simp
qed

lemma load_dicoms_Some:
  "load_dicoms W path ents acc = Returns (Some ds) \<Longrightarrow>
   ds = acc @ map (Dicom_of W)
          (filter (\<lambda>p. im_get_format W p = DICOM) (map (\<lambda>e. path @ sepStr W @ e) ents))
   \<and> (\<forall>p \<in> set (filter (\<lambda>p. im_get_format W p = DICOM) (map (\<lambda>e. path @ sepStr W @ e) ents)).
         isValid (Dicom_of W p))"
proof (induction ents arbitrary: acc)
  case Nil
  then show ?case by simp
next
  case (Cons e ents)
  let ?full = "path @ sepStr W @ e"
  show ?case
  proof (cases "im_get_format W ?full = DICOM")
    case False
    with Cons.prems have "load_dicoms W path ents acc = Returns (Some ds)"
      by (simp add: Let_def split: if_splits)
    from Cons.IH[OF this] False show ?thesis by simp
  next
    case True
    with Cons.prems have v: "isValid (Dicom_of W ?full)"
      and "load_dicoms W path ents (acc @ [Dicom_of W ?full]) = Returns (Some ds)"
      by (simp_all add: Let_def Dicom_of_def split: if_splits)
    from Cons.IH[OF this(2)] True v show ?thesis by simp
  qed
qed

lemma load_dicoms_files:
  assumes "load_dicoms W path (readdir_names W path) [] = Returns (Some ds)"
  shows "ds = map (Dicom_of W) (dicom_files W path)"
    and "\<And>p. p \<in> set (dicom_files W path) \<Longrightarrow> isValid (Dicom_of W p)"
  using load_dicoms_Some[OF assms] by (simp_all add: dicom_files_def)

lemma load_dicoms_never_aborts: "load_dicoms W path ents acc \<noteq> Assert_aborts"
  by (induction ents arbitrary: acc) (simp_all add: Let_def)

lemma verify_dims_Some:
  "verify_dims a b c ds n0 = Some n \<Longrightarrow>
   (\<forall>d \<in> set ds. getNx d = a \<and> getNy d = b \<and> getNc d = c) \<and> n = n0 + sum_list (map getNz ds)"
proof (induction ds arbitrary: n0)
  case Nil
  then show ?case by simp
next
  case (Cons d ds)
  from Cons.prems have hd: "getNx d = a \<and> getNy d = b \<and> getNc d = c"
    and rest: "verify_dims a b c ds (n0 + getNz d) = Some n"
    by (simp_all split: if_splits)
  from Cons.IH[OF rest] hd show ?case by simp
qed

lemma same_series_iff: "same_series first ds \<longleftrightarrow> (\<forall>d \<in> set ds. seriesUID d = seriesUID first)"
  by (induction ds) (auto simp: eqSeries_def)

lemma copy_slice_dims [simp]:
  "nx (copy_slice s off im) = nx im" "ny (copy_slice s off im) = ny im"
  "nz (copy_slice s off im) = nz im" "nc (copy_slice s off im) = nc im"
  by (simp_all add: copy_slice_def)

lemma read_slices_dims:
  "read_slices W ds s off im = Returns (r, im', off') \<Longrightarrow>
   nx im' = nx im \<and> ny im' = ny im \<and> nz im' = nz im \<and> nc im' = nc im"
proof (induction ds arbitrary: s off im)
  case Nil
  then show ?case by simp
next
  case (Cons d ds)
  show ?case
  proof (cases "read_dcm W (name d) s")
    case (Pair cr s')
    show ?thesis
    proof (cases cr)
      case Process_aborted
      with Pair Cons.prems show ?thesis by simp
    next
      case (C_returns ret)
      show ?thesis
      proof (cases "ret = SIFT3D_SUCCESS")
        case True
        with Cons.prems C_returns Pair
        have "read_slices W ds s' (off + nz s') (copy_slice s' off im) = Returns (r, im', off')"
          by simp
        from Cons.IH[OF this] show ?thesis by simp
      next
        case False
        with Cons.prems C_returns Pair show ?thesis by auto
      qed
    qed
  qed
qed

lemma read_dcm_dir_cpp_success:
  assumes "read_dcm_dir_cpp W path im0 = (Returns SIFT3D_SUCCESS, im)"
  shows "\<exists>first others nz0.
     stat_path W path = Is_a_directory \<and> opendir_ok W path \<and>
     load_dicoms W path (readdir_names W path) [] = Returns (Some (first # others)) \<and>
     same_series first others \<and>
     verify_dims (getNx first) (getNy first) (getNc first) (first # others) 0 = Some nz0 \<and>
     read_slices W (std_sort W (first # others)) (init_im W) 0
       (im0\<lparr>nx := getNx first, ny := getNy first, nz := nz0,
            nc := getNc first, ux := getUx first,
            uy := getUy first, uz := getUz first\<rparr>)
       = Returns (SIFT3D_SUCCESS, im, nz0)"
  using assms unfolding read_dcm_dir_cpp_def Let_def
  by (auto split: stat_result.splits if_splits cpp_result.splits option.splits list.splits prod.splits)

lemma CATCH_EXCEPTIONS_success:
  "CATCH_EXCEPTIONS r = C_returns SIFT3D_SUCCESS \<Longrightarrow> r = Returns SIFT3D_SUCCESS"
  by (auto simp: CATCH_EXCEPTIONS_def split: cpp_result.splits cpp_exception.splits)

lemma read_dcm_dir_success:
  assumes "read_dcm_dir W path im0 = (C_returns SIFT3D_SUCCESS, im)"
  shows "read_dcm_dir_cpp W path im0 = (Returns SIFT3D_SUCCESS, im)"
proof (cases "read_dcm_dir_cpp W path im0")
  case (Pair r im')
  with assms have "CATCH_EXCEPTIONS r = C_returns SIFT3D_SUCCESS" and "im' = im"
    by (simp_all add: read_dcm_dir_def)
  with Pair CATCH_EXCEPTIONS_success show ?thesis by simp
qed

lemma c_result_success_cases:
  "fst r = C_returns SIFT3D_SUCCESS \<Longrightarrow> \<exists>im. r = (C_returns SIFT3D_SUCCESS, im)"
  by (cases r) simp

subsection \<open>Reading one file\<close>

lemma copy_frame_dims [simp]:
  "nx (copy_frame W sh fd i im) = nx im" "ny (copy_frame W sh fd i im) = ny im"
  "nz (copy_frame W sh fd i im) = nz im" "nc (copy_frame W sh fd i im) = nc im"
  by (simp_all add: copy_frame_def)

lemma copy_frame_other: "z \<noteq> i \<Longrightarrow> data (copy_frame W sh fd i im) x y z c = data im x y z c"
  by (simp add: copy_frame_def)

lemma copy_frame_at:
  "0 \<le> x \<Longrightarrow> x < nx im \<Longrightarrow> 0 \<le> y \<Longrightarrow> y < ny im \<Longrightarrow>
   data (copy_frame W sh fd i im) x y i 0 = float_of_uint32 W (drop_bit sh (fd (nat (x + y * nx im))))"
  by (simp add: copy_frame_def)

lemma read_frames_success:
  "read_frames W f sh js im = (SIFT3D_SUCCESS, im') \<Longrightarrow>
   (nx im' = nx im \<and> ny im' = ny im \<and> nz im' = nz im \<and> nc im' = nc im) \<and>
   (\<forall>x y z c. z \<notin> set js \<longrightarrow> data im' x y z c = data im x y z c) \<and>
   (\<forall>i \<in> set js. \<forall>x y. 0 \<le> x \<and> x < nx im \<and> 0 \<le> y \<and> y < ny im \<longrightarrow>
      (\<exists>fd. getOutputData f i = Some fd \<and>
            data im' x y i 0 = float_of_uint32 W (drop_bit sh (fd (nat (x + y * nx im))))))"
proof (induction js arbitrary: im)
  case Nil
  then show ?case by simp
next
  case (Cons j js)
  from Cons.prems obtain fd where fd: "getOutputData f j = Some fd"
    and rest: "read_frames W f sh js (copy_frame W sh fd j im) = (SIFT3D_SUCCESS, im')"
    by (auto split: option.splits)
  let ?im1 = "copy_frame W sh fd j im"
  note ih = Cons.IH[OF rest]
  from ih have dims: "nx im' = nx im \<and> ny im' = ny im \<and> nz im' = nz im \<and> nc im' = nc im"
    by simp
  from ih have frame: "\<And>x y z c. z \<notin> set js \<Longrightarrow> data im' x y z c = data ?im1 x y z c"
    by blast
  from ih have at: "\<And>i x y. i \<in> set js \<Longrightarrow> 0 \<le> x \<Longrightarrow> x < nx im \<Longrightarrow> 0 \<le> y \<Longrightarrow> y < ny im \<Longrightarrow>
      (\<exists>fd. getOutputData f i = Some fd \<and>
            data im' x y i 0 = float_of_uint32 W (drop_bit sh (fd (nat (x + y * nx im)))))"
    by simp
  have other: "data im' x y z c = data im x y z c" if "z \<notin> set (j # js)" for x y z c
    using that frame[of z x y c] copy_frame_other[of z j] by simp
  have here: "\<exists>fd. getOutputData f i = Some fd \<and>
            data im' x y i 0 = float_of_uint32 W (drop_bit sh (fd (nat (x + y * nx im))))"
    if "i \<in> set (j # js)" "0 \<le> x" "x < nx im" "0 \<le> y" "y < ny im" for i x y
  proof (cases "i \<in> set js")
    case True
    from at[OF True that(2-5)] show ?thesis .
  next
    case False
    with that(1) have ij: "i = j" by simp
    from False have "data im' x y i 0 = data ?im1 x y i 0" by (rule frame)
    also have "\<dots> = float_of_uint32 W (drop_bit sh (fd (nat (x + y * nx im))))"
      unfolding ij using that(2-5) by (rule copy_frame_at)
    finally show ?thesis using fd ij by simp
  qed
  show ?case using dims other here by blast
qed

lemma read_dcm_cpp_success:
  assumes "read_dcm_cpp W p s = (Returns SIFT3D_SUCCESS, s')"
  shows "isValid (Dicom_of W p) \<and>
     read_frames W (dcm_at W p)
       (if isLittleEndian W then nat (32 - getDepth (dcm_at W p)) else 0)
       [0..getNz (Dicom_of W p) - 1]
       (s\<lparr>nx := getNx (Dicom_of W p), ny := getNy (Dicom_of W p), nz := getNz (Dicom_of W p),
          nc := getNc (Dicom_of W p), ux := getUx (Dicom_of W p), uy := getUy (Dicom_of W p),
          uz := getUz (Dicom_of W p)\<rparr>) = (SIFT3D_SUCCESS, s')"
  using assms unfolding read_dcm_cpp_def Dicom_of_def Let_def
  by (simp split: if_splits prod.splits)

lemma read_frames_dims:
  assumes "read_frames W f sh js im = (SIFT3D_SUCCESS, im')"
  shows "nx im' = nx im" "ny im' = ny im" "nz im' = nz im" "nc im' = nc im"
  using read_frames_success[OF assms] by simp_all

lemma read_frames_at:
  assumes "read_frames W f sh js im = (SIFT3D_SUCCESS, im')"
    and "i \<in> set js" "0 \<le> x" "x < nx im" "0 \<le> y" "y < ny im"
  shows "\<exists>fd. getOutputData f i = Some fd \<and>
            data im' x y i 0 = float_of_uint32 W (drop_bit sh (fd (nat (x + y * nx im))))"
proof -
  from read_frames_success[OF assms(1)]
  have "\<forall>i \<in> set js. \<forall>x y. 0 \<le> x \<and> x < nx im \<and> 0 \<le> y \<and> y < ny im \<longrightarrow>
      (\<exists>fd. getOutputData f i = Some fd \<and>
            data im' x y i 0 = float_of_uint32 W (drop_bit sh (fd (nat (x + y * nx im)))))"
    by (rule conjunct2[OF conjunct2])
  with assms(2-6) show ?thesis by blast
qed

lemma read_dcm_success:
  assumes "read_dcm W p s = (C_returns SIFT3D_SUCCESS, s')"
  shows "isValid (Dicom_of W p)"
    and "nx s' = getWidth (dcm_at W p)" and "ny s' = getHeight (dcm_at W p)"
    and "nz s' = getFrameCount (dcm_at W p)" and "nc s' = 1"
    and "\<And>x y z. 0 \<le> x \<Longrightarrow> x < getWidth (dcm_at W p) \<Longrightarrow> 0 \<le> y \<Longrightarrow> y < getHeight (dcm_at W p) \<Longrightarrow>
           0 \<le> z \<Longrightarrow> z < getFrameCount (dcm_at W p) \<Longrightarrow>
           dcm_voxel W p x y z = Some (data s' x y z 0)"
proof -
  have "read_dcm_cpp W p s = (Returns SIFT3D_SUCCESS, s')"
  proof (cases "read_dcm_cpp W p s")
    case (Pair r im')
    with assms have "CATCH_EXCEPTIONS r = C_returns SIFT3D_SUCCESS" and "im' = s'"
      by (simp_all add: read_dcm_def)
    with Pair CATCH_EXCEPTIONS_success show ?thesis by simp
  qed
  note c = read_dcm_cpp_success[OF this]
  from c show v: "isValid (Dicom_of W p)" by (rule conjunct1)
  note dv = Dicom_of_valid[OF v]
  let ?sh = "if isLittleEndian W then nat (32 - getDepth (dcm_at W p)) else 0"
  let ?s1 = "s\<lparr>nx := getNx (Dicom_of W p), ny := getNy (Dicom_of W p), nz := getNz (Dicom_of W p),
          nc := getNc (Dicom_of W p), ux := getUx (Dicom_of W p), uy := getUy (Dicom_of W p),
          uz := getUz (Dicom_of W p)\<rparr>"
  from c have rf: "read_frames W (dcm_at W p) ?sh [0..getNz (Dicom_of W p) - 1] ?s1
      = (SIFT3D_SUCCESS, s')"
    by (rule conjunct2)
  have s1: "nx ?s1 = getWidth (dcm_at W p)" "ny ?s1 = getHeight (dcm_at W p)"
    "nz ?s1 = getFrameCount (dcm_at W p)" "nc ?s1 = 1"
    by (simp_all add: dv(2-5))
  note d = read_frames_dims[OF rf]
  show "nx s' = getWidth (dcm_at W p)" using d(1) s1(1) by simp
  show "ny s' = getHeight (dcm_at W p)" using d(2) s1(2) by simp
  show "nz s' = getFrameCount (dcm_at W p)" using d(3) s1(3) by simp
  show "nc s' = 1" using d(4) s1(4) by simp
  fix x y z :: int
  assume b: "0 \<le> x" "x < getWidth (dcm_at W p)" "0 \<le> y" "y < getHeight (dcm_at W p)"
           "0 \<le> z" "z < getFrameCount (dcm_at W p)"
  from b(5,6) have zin: "z \<in> set [0..getNz (Dicom_of W p) - 1]" by (simp add: dv(4))
  from b(1-4) have xy: "0 \<le> x" "x < nx ?s1" "0 \<le> y" "y < ny ?s1"
    by (simp_all add: dv(2-3))
  from read_frames_at[OF rf zin xy]
  obtain fd where fd: "getOutputData (dcm_at W p) z = Some fd"
    and "data s' x y z 0 = float_of_uint32 W (drop_bit ?sh (fd (nat (x + y * nx ?s1))))"
    by blast
  then have "data s' x y z 0 =
      float_of_uint32 W (drop_bit ?sh (fd (nat (x + y * getWidth (dcm_at W p)))))"
    by (simp add: dv(2))
  with fd show "dcm_voxel W p x y z = Some (data s' x y z 0)"
    by (simp add: dcm_voxel_def Let_def)
qed

subsection \<open>Stacking the slices\<close>

lemma copy_slice_below: "z < off \<Longrightarrow> data (copy_slice s off im) x y z c = data im x y z c"
  by (simp add: copy_slice_def)

lemma copy_slice_at:
  "0 \<le> x \<Longrightarrow> x < nx s \<Longrightarrow> 0 \<le> y \<Longrightarrow> y < ny s \<Longrightarrow> 0 \<le> z \<Longrightarrow> z < nz s \<Longrightarrow> 0 \<le> c \<Longrightarrow> c < nc s \<Longrightarrow>
   data (copy_slice s off im) x y (off + z) c = data s x y z c"
  by (simp add: copy_slice_def)

lemma frames_before_0 [simp]: "frames_before W ds 0 = 0"
  by (simp add: frames_before_def)

lemma frames_before_Suc [simp]:
  "frames_before W (d # ds) (Suc k) = getFrameCount (dcm_at W (name d)) + frames_before W ds k"
  by (simp add: frames_before_def)

lemma read_slices_layout:
  "read_slices W ds s off im = Returns (SIFT3D_SUCCESS, im', off') \<Longrightarrow>
   off' = off + frames_before W ds (length ds) \<and>
   (\<forall>x y z c. z < off \<longrightarrow> data im' x y z c = data im x y z c) \<and>
   (\<forall>k<length ds. \<forall>x y z.
      0 \<le> x \<and> x < getWidth (dcm_at W (name (ds ! k))) \<and>
      0 \<le> y \<and> y < getHeight (dcm_at W (name (ds ! k))) \<and>
      0 \<le> z \<and> z < getFrameCount (dcm_at W (name (ds ! k))) \<longrightarrow>
      dcm_voxel W (name (ds ! k)) x y z = Some (data im' x y (off + frames_before W ds k + z) 0))"
proof (induction ds arbitrary: s off im)
  case Nil
  then show ?case by simp
next
  case (Cons d ds)
  let ?f = "dcm_at W (name d)"
  from Cons.prems obtain s' where rd: "read_dcm W (name d) s = (C_returns SIFT3D_SUCCESS, s')"
    and rest: "read_slices W ds s' (off + nz s') (copy_slice s' off im)
                 = Returns (SIFT3D_SUCCESS, im', off')"
    by (auto split: c_result.splits if_splits prod.splits)
  note sl = read_dcm_success[OF rd]
  note dv = Dicom_of_valid[OF sl(1)]
  have nzs: "nz s' = getFrameCount ?f" by (rule sl(4))
  have nz_pos: "1 \<le> getFrameCount ?f" by (rule dv(11))
  let ?im1 = "copy_slice s' off im"
  note ih = Cons.IH[OF rest]
  from ih have off': "off' = off + nz s' + frames_before W ds (length ds)" by simp
  from ih have below: "\<And>x y z c. z < off + nz s' \<Longrightarrow> data im' x y z c = data ?im1 x y z c"
    by blast
  from ih have later: "\<And>k x y z. k < length ds \<Longrightarrow>
      0 \<le> x \<Longrightarrow> x < getWidth (dcm_at W (name (ds ! k))) \<Longrightarrow>
      0 \<le> y \<Longrightarrow> y < getHeight (dcm_at W (name (ds ! k))) \<Longrightarrow>
      0 \<le> z \<Longrightarrow> z < getFrameCount (dcm_at W (name (ds ! k))) \<Longrightarrow>
      dcm_voxel W (name (ds ! k)) x y z
        = Some (data im' x y (off + nz s' + frames_before W ds k + z) 0)"
    by blast
  have c1: "off' = off + frames_before W (d # ds) (length (d # ds))"
    using off' nzs by simp
  have c2: "data im' x y z c = data im x y z c" if "z < off" for x y z c
  proof -
    from that nz_pos nzs have "z < off + nz s'" by simp
    then have "data im' x y z c = data ?im1 x y z c" by (rule below)
    also have "\<dots> = data im x y z c" using that by (rule copy_slice_below)
    finally show ?thesis .
  qed
  have c3: "dcm_voxel W (name ((d # ds) ! k)) x y z
        = Some (data im' x y (off + frames_before W (d # ds) k + z) 0)"
    if k: "k < length (d # ds)"
      and b: "0 \<le> x" "x < getWidth (dcm_at W (name ((d # ds) ! k)))"
        "0 \<le> y" "y < getHeight (dcm_at W (name ((d # ds) ! k)))"
        "0 \<le> z" "z < getFrameCount (dcm_at W (name ((d # ds) ! k)))"
    for k x y z
  proof (cases k)
    case 0
    with b have b0: "0 \<le> x" "x < getWidth ?f" "0 \<le> y" "y < getHeight ?f"
      "0 \<le> z" "z < getFrameCount ?f" by simp_all
    from b0(6) nzs have "off + z < off + nz s'" by simp
    then have "data im' x y (off + z) 0 = data ?im1 x y (off + z) 0" by (rule below)
    also have "\<dots> = data s' x y z 0"
      using b0 sl(2-5) by (intro copy_slice_at) simp_all
    finally have "data im' x y (off + z) 0 = data s' x y z 0" .
    moreover have "dcm_voxel W (name d) x y z = Some (data s' x y z 0)"
      using b0 by (rule sl(6))
    ultimately show ?thesis using 0 by simp
  next
    case (Suc j)
    with k have j: "j < length ds" by simp
    from b Suc have bj: "0 \<le> x" "x < getWidth (dcm_at W (name (ds ! j)))"
        "0 \<le> y" "y < getHeight (dcm_at W (name (ds ! j)))"
        "0 \<le> z" "z < getFrameCount (dcm_at W (name (ds ! j)))" by simp_all
    from later[OF j bj] show ?thesis using Suc nzs by (simp add: add.assoc)
  qed
  show ?case using c1 c2 c3 by blast
qed

subsection \<open>Series and order\<close>

lemma read_dcm_dir_cpp_series_mismatch:
  assumes p: "p \<in> set (dicom_files W path)" and q: "q \<in> set (dicom_files W path)"
    and ne: "SeriesInstanceUID (dcm_at W p) \<noteq> SeriesInstanceUID (dcm_at W q)"
  shows "read_dcm_dir_cpp W path im0 = (Returns SIFT3D_FAILURE, im0) \<or>
         (\<exists>e. read_dcm_dir_cpp W path im0 = (Throws e, im0))"
proof (cases "load_dicoms W path (readdir_names W path) []")
  case (Returns r)
  show ?thesis
  proof (cases r)
    case None
    with Returns show ?thesis
      by (simp add: read_dcm_dir_cpp_def split: stat_result.splits)
  next
    case (Some ds)
    with Returns have ld: "load_dicoms W path (readdir_names W path) [] = Returns (Some ds)"
      by simp
    note lf = load_dicoms_files[OF ld]
    show ?thesis
    proof (cases ds)
      case Nil
      with ld show ?thesis
        by (simp add: read_dcm_dir_cpp_def split: stat_result.splits)
    next
      case (Cons first others)
      have "\<not> same_series first others"
      proof
        assume ss: "same_series first others"
        have uid: "SeriesInstanceUID (dcm_at W r) = Some (seriesUID first)"
          if "r \<in> set (dicom_files W path)" for r
        proof -
          from that lf(1) Cons have "Dicom_of W r \<in> set (first # others)" by auto
          with ss have "seriesUID (Dicom_of W r) = seriesUID first"
            by (auto simp: same_series_iff)
          with Dicom_of_valid(6)[OF lf(2)[OF that]] show ?thesis by simp
        qed
        from uid[OF p] uid[OF q] ne show False by simp
      qed
      with ld Cons show ?thesis
        by (simp add: read_dcm_dir_cpp_def split: stat_result.splits)
    qed
  qed
next
  case (Throws e)
  then show ?thesis
    by (simp add: read_dcm_dir_cpp_def split: stat_result.splits)
next
  case Assert_aborts
  with load_dicoms_never_aborts show ?thesis by blast
qed

lemma CATCH_EXCEPTIONS_failure:
  "r = Returns SIFT3D_FAILURE \<or> (\<exists>e. r = Throws e) \<Longrightarrow>
   CATCH_EXCEPTIONS r = C_returns SIFT3D_FAILURE"
  by (auto simp: CATCH_EXCEPTIONS_def split: cpp_exception.splits)

lemma sorted_wrt_Dicom_less:
  "sorted_wrt (\<lambda>a b. \<not> Dicom_less b a) ds \<longleftrightarrow> sorted (map instance_number ds)"
  by (simp add: sorted_map Dicom_less_def not_less)

lemma frames_before_z_offset:
  assumes "\<And>d. d \<in> set ds \<Longrightarrow> getNz d = getFrameCount (dcm_at W (name d))"
  shows "frames_before W ds k = z_offset ds k"
proof -
  have "map (\<lambda>d. getFrameCount (dcm_at W (name d))) (take k ds) = map getNz (take k ds)"
    using assms by (intro map_cong refl) (auto dest: in_set_takeD)
  then have "sum_list (map (\<lambda>d. getFrameCount (dcm_at W (name d))) (take k ds))
      = sum_list (map getNz (take k ds))"
    by (rule arg_cong)
  then show ?thesis unfolding frames_before_def z_offset_def .
qed

section \<open>Properties of the DICOM writer\<close>

subsection \<open>The library calls and the rendering loop\<close>

lemma fst_putAndInsert [simp]: "fst (putAndInsert E tag v ds) = put_good E tag"
  by (simp add: putAndInsert_def)

lemma snd_putAndInsert_apply:
  "snd (putAndInsert E tag v ds) tag' =
     (if put_good E tag \<and> tag' = tag then Some v else ds tag')"
  by (simp add: putAndInsert_def)

lemma dcm_constants [simp]:
  "dcm_bit_width = 8" "0 < FLT_EPSILON" "dcm_max_val = 255"
  by (simp_all add: dcm_bit_width_def dcm_max_val_def FLT_EPSILON_def)

lemma render_pixels_negative:
  "\<exists>p \<in> set ps. (case p of (x, y, z, c) \<Rightarrow> data im x y z c < 0) \<Longrightarrow>
   render_pixels im sc ps pix = None"
proof (induction ps arbitrary: pix)
  case Nil
  then show ?case by simp
next
  case (Cons p ps)
  obtain x y z c where p: "p = (x, y, z, c)" by (cases p)
  show ?case
  proof (cases "data im x y z c < 0")
    case True
    then show ?thesis by (simp add: p)
  next
    case False
    with Cons.prems p have "\<exists>p \<in> set ps. (case p of (x, y, z, c) \<Rightarrow> data im x y z c < 0)"
      by simp
    from Cons.IH[OF this] False show ?thesis by (simp add: p Let_def)
  qed
qed

lemma im_loop_c_mem:
  "(x, y, z, c) \<in> set (im_loop_c im) \<longleftrightarrow>
     0 \<le> x \<and> x < nx im \<and> 0 \<le> y \<and> y < ny im \<and> 0 \<le> z \<and> z < nz im \<and> 0 \<le> c \<and> c < nc im"
proof -
  have "(x, y, z, c) \<in> set (im_loop_c im) \<longleftrightarrow>
      z \<in> {0..nz im - 1} \<and> y \<in> {0..ny im - 1} \<and> x \<in> {0..nx im - 1} \<and> c \<in> {0..nc im - 1}"
    unfolding im_loop_c_def by (simp add: image_iff) blast
  then show ?thesis by auto
qed

lemma write_dcm_cpp_channels:
  "nc im \<noteq> 1 \<Longrightarrow> write_dcm_cpp E t path im meta max_val fs = (Returns SIFT3D_FAILURE, fs)"
  by (simp add: write_dcm_cpp_def)

lemma write_dcm_cpp_negative:
  assumes "nc im = 1" and "IM_GET_IDX E im 0 0 0 1 = IM_GET_IDX E im 0 0 0 0 + 1"
    and "render_pixels im (pixel_scale E im max_val) (im_loop_c im)
           (replicate (numPixels im) None) = None"
  shows "write_dcm_cpp E t path im meta max_val fs = (Returns SIFT3D_FAILURE, fs) \<or>
         write_dcm_cpp E t path im meta max_val fs = (Throws bad_alloc, fs)"
  using assms unfolding write_dcm_cpp_def Let_def case_prod_beta
  by simp

subsection \<open>The pixel array\<close>

lemma render_pixels_length:
  "render_pixels im sc ps pix = Some pix' \<Longrightarrow> length pix' = length pix"
proof (induction ps arbitrary: pix)
  case Nil
  then show ?case by simp
next
  case (Cons p ps)
  obtain x y z c where p: "p = (x, y, z, c)" by (cases p)
  from Cons.prems p have "render_pixels im sc ps
      (pix[pixel_index im p := (case sc of None \<Rightarrow> None | Some s \<Rightarrow> uint8_of_float (data im x y z c * s))])
      = Some pix'"
    by (simp add: Let_def split: if_splits)
  from Cons.IH[OF this] show ?case by simp
qed

lemma render_pixels_nonneg:
  "render_pixels im sc ps pix = Some pix' \<Longrightarrow> (x, y, z, c) \<in> set ps \<Longrightarrow> 0 \<le> data im x y z c"
  using render_pixels_negative[of ps im sc pix] by fastforce

lemma render_pixels_untouched:
  "render_pixels im sc ps pix = Some pix' \<Longrightarrow> j \<notin> pixel_index im ` set ps \<Longrightarrow> pix' ! j = pix ! j"
proof (induction ps arbitrary: pix)
  case Nil
  then show ?case by simp
next
  case (Cons p ps)
  obtain x y z c where p: "p = (x, y, z, c)" by (cases p)
  let ?pix1 = "pix[pixel_index im p := (case sc of None \<Rightarrow> None | Some s \<Rightarrow> uint8_of_float (data im x y z c * s))]"
  from Cons.prems(1) p have r: "render_pixels im sc ps ?pix1 = Some pix'"
    by (simp add: Let_def split: if_splits)
  from Cons.prems(2) have j: "j \<notin> pixel_index im ` set ps" "j \<noteq> pixel_index im p" by auto
  from Cons.IH[OF r j(1)] have "pix' ! j = ?pix1 ! j" .
  also from j(2) have "\<dots> = pix ! j" by simp
  finally show ?case .
qed

lemma render_pixels_at:
  assumes "render_pixels im sc ps pix = Some pix'"
    and "inj_on (pixel_index im) (set ps)"
    and "(x, y, z, c) \<in> set ps" and "pixel_index im (x, y, z, c) < length pix"
  shows "pix' ! pixel_index im (x, y, z, c) =
           (case sc of None \<Rightarrow> None | Some s \<Rightarrow> uint8_of_float (data im x y z c * s))"
  using assms
proof (induction ps arbitrary: pix)
  case Nil
  then show ?case by simp
next
  case (Cons p ps)
  obtain x' y' z' c' where p: "p = (x', y', z', c')" by (cases p)
  let ?v = "\<lambda>x y z c. (case sc of None \<Rightarrow> None | Some s \<Rightarrow> uint8_of_float (data im x y z c * s))"
  let ?pix1 = "pix[pixel_index im p := ?v x' y' z' c']"
  let ?q = "(x, y, z, c)"
  from Cons.prems(1) p have r: "render_pixels im sc ps ?pix1 = Some pix'"
    by (simp add: Let_def split: if_splits)
  from Cons.prems(2) have inj: "inj_on (pixel_index im) (set ps)" by (simp add: inj_on_def)
  from Cons.prems(4) have len: "pixel_index im ?q < length ?pix1" by simp
  show ?case
  proof (cases "?q \<in> set ps")
    case True
    from Cons.IH[OF r inj True len] show ?thesis .
  next
    case False
    with Cons.prems(3) have qp: "p = ?q" by simp
    have "pixel_index im ?q \<notin> pixel_index im ` set ps"
    proof
      assume "pixel_index im ?q \<in> pixel_index im ` set ps"
      then obtain q' where q': "q' \<in> set ps" "pixel_index im q' = pixel_index im ?q" by auto
      with Cons.prems(2) qp have "q' = ?q" by (auto simp: inj_on_def)
      with q'(1) False show False by simp
    qed
    from render_pixels_untouched[OF r this] have "pix' ! pixel_index im ?q = ?pix1 ! pixel_index im ?q" .
    also have "\<dots> = ?v x y z c" using qp p Cons.prems(4) by auto
    finally show ?thesis .
  qed
qed

lemma pixel_coord_unique:
  fixes a b :: int
  assumes "0 < n" "0 \<le> a" "a < n" "0 \<le> b" "b < n" "a + n * k = b + n * l"
  shows "a = b \<and> k = l"
proof -
  have "(a + n * k) mod n = a" using assms(2,3) by simp
  moreover have "(b + n * l) mod n = b" using assms(4,5) by simp
  ultimately have ab: "a = b" using assms(6) by simp
  with assms(6) have "n * k = n * l" by simp
  with assms(1) have "k = l" by simp
  with ab show ?thesis by simp
qed

lemma pixel_index_inj:
  assumes "nc im = 1"
  shows "inj_on (pixel_index im) (set (im_loop_c im))"
proof (rule inj_onI)
  fix p q assume pq: "p \<in> set (im_loop_c im)" "q \<in> set (im_loop_c im)"
    and eq: "pixel_index im p = pixel_index im q"
  obtain x y z c where p: "p = (x, y, z, c)" by (cases p)
  obtain x' y' z' c' where q: "q = (x', y', z', c')" by (cases q)
  from pq p q assms have b: "0 \<le> x" "x < nx im" "0 \<le> y" "y < ny im" "0 \<le> z" "c = 0"
    "0 \<le> x'" "x' < nx im" "0 \<le> y'" "y' < ny im" "0 \<le> z'" "c' = 0"
    by (simp_all add: im_loop_c_mem)
  have nn: "0 \<le> x + nx im * (y + ny im * z)" "0 \<le> x' + nx im * (y' + ny im * z')"
    using b by simp_all
  have e1: "c + x + y * nx im + z * nx im * ny im = x + nx im * (y + ny im * z)"
    using b by (simp add: algebra_simps)
  have e2: "c' + x' + y' * nx im + z' * nx im * ny im = x' + nx im * (y' + ny im * z')"
    using b by (simp add: algebra_simps)
  from eq have "x + nx im * (y + ny im * z) = x' + nx im * (y' + ny im * z')"
    unfolding p q pixel_index_def prod.case e1 e2 using nn by simp
  from pixel_coord_unique[OF _ b(1,2,7,8) this] b
  have xx: "x = x'" and k: "y + ny im * z = y' + ny im * z'" by simp_all
  from pixel_coord_unique[OF _ b(3,4,9,10) k] b have "y = y'" "z = z'" by simp_all
  with xx b p q show "p = q" by simp
qed

lemma pixel_index_bound:
  assumes "nc im = 1" "(x, y, z, c) \<in> set (im_loop_c im)"
  shows "pixel_index im (x, y, z, c) < nat (nx im * ny im * nz im)"
proof -
  from assms have b: "0 \<le> x" "x < nx im" "0 \<le> y" "y < ny im" "0 \<le> z" "z < nz im" "c = 0"
    by (simp_all add: im_loop_c_mem)
  have "ny im * z \<le> ny im * (nz im - 1)" using b by (intro mult_left_mono) simp_all
  with b have k: "y + ny im * z \<le> ny im * nz im - 1" by (simp add: algebra_simps)
  have "nx im * (y + ny im * z) \<le> nx im * (ny im * nz im - 1)"
    using b k by (intro mult_left_mono) simp_all
  with b have "x + nx im * (y + ny im * z) < nx im * (ny im * nz im)"
    by (simp add: algebra_simps)
  moreover have "c + x + y * nx im + z * nx im * ny im = x + nx im * (y + ny im * z)"
    using b by (simp add: algebra_simps)
  moreover have "0 \<le> x + nx im * (y + ny im * z)" using b by simp
  ultimately show ?thesis
    by (simp add: pixel_index_def mult.assoc)
qed

lemma unat_word64_of_int:
  fixes k :: int
  assumes "0 \<le> k" "k < 2 ^ 64"
  shows "unat (word_of_int k :: 64 word) = nat k"
proof -
  have "unat (word_of_int k :: 64 word) = nat (k mod 2 ^ 64)"
    by (simp add: unat_eq_nat_uint uint_word_of_int take_bit_eq_mod)
  then show ?thesis by (simp only: mod_pos_pos_trivial[OF assms])
qed

lemma numPixels_eq:
  assumes "0 \<le> nx im * ny im * nz im" "nx im * ny im * nz im < 2 ^ 64"
  shows "numPixels im = nat (nx im * ny im * nz im)"
proof -
  have "(word_of_int (nx im) * word_of_int (ny im) * word_of_int (nz im) :: 64 word)
      = word_of_int (nx im * ny im * nz im)"
    by simp
  then have "numPixels im = unat (word_of_int (nx im * ny im * nz im) :: 64 word)"
    unfolding numPixels_def by (rule arg_cong)
  also have "\<dots> = nat (nx im * ny im * nz im)" using assms by (rule unat_word64_of_int)
  finally show ?thesis .
qed

subsection \<open>A successful write\<close>

lemma write_dcm_cpp_success:
  assumes "write_dcm_cpp E t path im meta max_val fs = (Returns SIFT3D_SUCCESS, fs')"
  shows "\<exists>dataset pixelData.
     fs' = fs(path \<mapsto> (dataset, EXS_LittleEndianExplicit)) \<and>
     nc im = 1 \<and>
     render_pixels im (pixel_scale E im max_val) (im_loop_c im)
       (replicate (numPixels im) None) = Some pixelData \<and>
     dataset DCM_PixelData = Some (Uint8Array pixelData) \<and>
     dataset DCM_StudyInstanceUID = Some (String_value (study_uid (set_meta_defaults E t meta))) \<and>
     dataset DCM_SeriesInstanceUID = Some (String_value (series_uid (set_meta_defaults E t meta))) \<and>
     dataset DCM_SOPInstanceUID = Some (String_value (instance_uid (set_meta_defaults E t meta))) \<and>
     (put_good E DCM_BitsAllocated \<longrightarrow> dataset DCM_BitsAllocated = Some (Uint16_value 8)) \<and>
     (put_good E DCM_BitsStored \<longrightarrow> dataset DCM_BitsStored = Some (Uint16_value 8)) \<and>
     (put_good E DCM_PhotometricInterpretation \<longrightarrow>
        dataset DCM_PhotometricInterpretation = Some (String_value ''MONOCHROME2''))"
  using assms unfolding write_dcm_cpp_def Let_def case_prod_beta
  apply (simp split: if_splits option.splits add: snd_putAndInsert_apply)
  apply (intro exI conjI)
           apply (erule sym)
          apply (simp_all add: snd_putAndInsert_apply)
  done

lemma render_pixels_Some:
  "\<forall>p \<in> set ps. (case p of (x, y, z, c) \<Rightarrow> 0 \<le> data im x y z c) \<Longrightarrow>
   \<exists>pix'. render_pixels im sc ps pix = Some pix'"
proof (induction ps arbitrary: pix)
  case Nil
  then show ?case by simp
next
  case (Cons p ps)
  obtain x y z c where p: "p = (x, y, z, c)" by (cases p)
  from Cons.prems p have nn: "\<not> data im x y z c < 0"
    and rest: "\<forall>p \<in> set ps. (case p of (x, y, z, c) \<Rightarrow> 0 \<le> data im x y z c)"
    by simp_all
  from Cons.IH[OF rest] nn show ?case by (simp add: p Let_def)
qed

lemma write_dcm_cpp_accepts:
  assumes "nc im = 1" and "\<forall>tag. put_good E tag"
    and "IM_GET_IDX E im 0 0 0 1 = IM_GET_IDX E im 0 0 0 0 + 1"
    and "new_ok E (numPixels im)" and "canWriteXfer E EXS_LittleEndianExplicit"
    and "saveFile_good E path"
    and "render_pixels im (pixel_scale E im max_val) (im_loop_c im)
           (replicate (numPixels im) None) = Some pixelData"
  shows "fst (write_dcm_cpp E t path im meta max_val fs) = Returns SIFT3D_SUCCESS"
  using assms unfolding write_dcm_cpp_def Let_def case_prod_beta
  by simp

section \<open>Exceptions and assertions at the C boundary\<close>

lemma CATCH_EXCEPTIONS_Throws [simp]: "CATCH_EXCEPTIONS (Throws e) = C_returns SIFT3D_FAILURE"
  by (cases e) (simp_all add: CATCH_EXCEPTIONS_def)

lemma CATCH_EXCEPTIONS_aborted [simp]:
  "CATCH_EXCEPTIONS r = Process_aborted \<longleftrightarrow> r = Assert_aborts"
  by (auto simp: CATCH_EXCEPTIONS_def split: cpp_result.splits cpp_exception.splits)

lemma read_dcm_cpp_no_abort: "fst (read_dcm_cpp W p im) \<noteq> Assert_aborts"
  by (simp add: read_dcm_cpp_def Let_def split: prod.splits)

lemma read_dcm_no_abort: "fst (read_dcm W p im) \<noteq> Process_aborted"
  using read_dcm_cpp_no_abort[of W p im]
  by (cases "read_dcm_cpp W p im") (simp add: read_dcm_def)

lemma read_slices_Returns: "\<exists>v. read_slices W ds s off im = Returns v"
proof (induction ds arbitrary: s off im)
  case Nil
  then show ?case by simp
next
  case (Cons d ds)
  obtain cr s' where r: "read_dcm W (name d) s = (cr, s')" by (cases "read_dcm W (name d) s")
  with read_dcm_no_abort[of W "name d" s] obtain ret where cr: "cr = C_returns ret"
    by (cases cr) simp_all
  show ?case
  proof (cases "ret = SIFT3D_SUCCESS")
    case True
    with r cr Cons.IH[of s' "off + nz s'" "copy_slice s' off im"] show ?thesis by simp
  next
    case False
    with r cr show ?thesis by simp
  qed
qed

lemma read_dcm_dir_cpp_abort:
  assumes "fst (read_dcm_dir_cpp W path im0) = Assert_aborts"
  shows "\<exists>first others nz0 im2 off_z.
     load_dicoms W path (readdir_names W path) [] = Returns (Some (first # others)) \<and>
     verify_dims (getNx first) (getNy first) (getNc first) (first # others) 0 = Some nz0 \<and>
     read_slices W (std_sort W (first # others)) (init_im W) 0
       (im0\<lparr>nx := getNx first, ny := getNy first, nz := nz0,
            nc := getNc first, ux := getUx first,
            uy := getUy first, uz := getUz first\<rparr>)
       = Returns (SIFT3D_SUCCESS, im2, off_z) \<and> off_z \<noteq> nz0"
proof -
  have la: "load_dicoms W path (readdir_names W path) [] \<noteq> Assert_aborts"
    by (rule load_dicoms_never_aborts)
  have ra: "read_slices W ds s off im \<noteq> Assert_aborts" for ds s off im
    using read_slices_Returns[of W ds s off im] by auto
  show ?thesis
    using assms la ra unfolding read_dcm_dir_cpp_def Let_def
    by (auto split: stat_result.splits if_splits cpp_result.splits option.splits
          list.splits prod.splits)
qed

lemma sum_list_mset_cong:
  fixes f :: "'a \<Rightarrow> int"
  assumes "mset xs = mset ys"
  shows "sum_list (map f xs) = sum_list (map f ys)"
proof -
  have "sum_list (map f xs) = sum_mset (image_mset f (mset xs))"
    by (simp flip: sum_mset_sum_list)
  also have "\<dots> = sum_mset (image_mset f (mset ys))" by (simp add: assms)
  also have "\<dots> = sum_list (map f ys)" by (simp flip: sum_mset_sum_list)
  finally show ?thesis .
qed

lemma read_dcm_dir_cpp_no_abort:
  assumes c: "std_sort_contract W (map (Dicom_of W) (dicom_files W path))"
  shows "fst (read_dcm_dir_cpp W path im0) \<noteq> Assert_aborts"
proof
  let ?loaded = "map (Dicom_of W) (dicom_files W path)"
  let ?ds = "std_sort W ?loaded"
  assume "fst (read_dcm_dir_cpp W path im0) = Assert_aborts"
  from read_dcm_dir_cpp_abort[OF this]
  obtain first others nz0 im1 im2 off_z where
    ld: "load_dicoms W path (readdir_names W path) [] = Returns (Some (first # others))" and
    vd: "verify_dims (getNx first) (getNy first) (getNc first) (first # others) 0 = Some nz0" and
    rs: "read_slices W (std_sort W (first # others)) (init_im W) 0 im1
           = Returns (SIFT3D_SUCCESS, im2, off_z)" and
    ne: "off_z \<noteq> nz0"
    by blast
  note lf = load_dicoms_files[OF ld]
  from c have perm: "mset ?ds = mset ?loaded" by (simp add: std_sort_contract_def)
  from rs lf(1) have rs': "read_slices W ?ds (init_im W) 0 im1 = Returns (SIFT3D_SUCCESS, im2, off_z)"
    by simp
  have fields: "getNz d = getFrameCount (dcm_at W (name d))" if "d \<in> set ?ds" for d
  proof -
    from that have "d \<in># mset ?ds" by simp
    with perm have "d \<in> set ?loaded" by simp
    then obtain r where r: "r \<in> set (dicom_files W path)" "d = Dicom_of W r" by auto
    note dv = Dicom_of_valid[OF lf(2)[OF r(1)]]
    from dv(1,4) r show ?thesis by simp
  qed
  from read_slices_layout[OF rs'] have "off_z = 0 + frames_before W ?ds (length ?ds)"
    by (rule conjunct1)
  also have "frames_before W ?ds (length ?ds) = z_offset ?ds (length ?ds)"
    using fields by (intro frames_before_z_offset) simp
  also have "\<dots> = sum_list (map getNz ?ds)" by (simp add: z_offset_def)
  also have "\<dots> = sum_list (map getNz ?loaded)" using perm by (rule sum_list_mset_cong)
  also have "\<dots> = nz0" using verify_dims_Some[OF vd] lf(1) by simp
  finally show False using ne by simp
qed

lemma write_dcm_cpp_no_abort:
  assumes "IM_GET_IDX E im 0 0 0 1 = IM_GET_IDX E im 0 0 0 0 + 1"
  shows "fst (write_dcm_cpp E t path im meta max_val fs) \<noteq> Assert_aborts"
  using assms unfolding write_dcm_cpp_def Let_def case_prod_beta
  by (simp split: option.splits)

lemma write_dcm_no_abort:
  assumes "IM_GET_IDX E im 0 0 0 1 = IM_GET_IDX E im 0 0 0 0 + 1"
  shows "fst (write_dcm E t path im meta max_val fs) \<noteq> Process_aborted"
  using write_dcm_cpp_no_abort[OF assms, of t path meta max_val fs]
  by (cases "write_dcm_cpp E t path im meta max_val fs") (simp add: write_dcm_def)

lemma write_slices_no_abort:
  assumes "\<forall>s. IM_GET_IDX E s 0 0 0 1 = IM_GET_IDX E s 0 0 0 0 + 1"
  shows "fst (write_slices E t path im max_val js s m fs) \<noteq> Assert_aborts"
proof (induction js arbitrary: t s m fs)
  case Nil
  then show ?case by simp
next
  case (Cons j js)
  let ?full = "path @ sepStr E @ slice_file_name E (nz im) j"
  let ?s = "copy_to_slice im j s"
  let ?m = "m\<lparr>instance_uid := dcmGenerateUniqueIdentifier E SITE_INSTANCE_UID_ROOT t,
                      instance_num := nat (j + 1)\<rparr>"
  obtain cr fs' where w: "write_dcm E (t + 1) ?full ?s (Some ?m) max_val fs = (cr, fs')"
    by (cases "write_dcm E (t + 1) ?full ?s (Some ?m) max_val fs")
  from assms have "IM_GET_IDX E ?s 0 0 0 1 = IM_GET_IDX E ?s 0 0 0 0 + 1" by blast
  from write_dcm_no_abort[OF this, of "t + 1" ?full "Some ?m" max_val fs] w
  obtain ret where cr: "cr = C_returns ret" by (cases cr) simp_all
  show ?case
  proof (cases "string_ctor_ok E ?full")
    case False
    then show ?thesis by (simp add: Let_def)
  next
    case True
    show ?thesis
    proof (cases "ret = SIFT3D_SUCCESS")
      case True
      with \<open>string_ctor_ok E ?full\<close> w cr Cons.IH[of "t + 1" ?s ?m fs'] show ?thesis
        by (simp add: Let_def)
    next
      case False
      with \<open>string_ctor_ok E ?full\<close> w cr show ?thesis by (simp add: Let_def)
    qed
  qed
qed

lemma write_dcm_dir_cpp_no_abort:
  assumes "\<forall>s. IM_GET_IDX E s 0 0 0 1 = IM_GET_IDX E s 0 0 0 0 + 1"
  shows "fst (write_dcm_dir_cpp E t path im meta fs) \<noteq> Assert_aborts"
  using write_slices_no_abort[OF assms]
  by (simp add: write_dcm_dir_cpp_def Let_def)

subsection \<open>Dimensions of a directory read\<close>

text \<open>
  Claim C8. When \<^verbatim>\<open>read_dcm_dir\<close> succeeds, the directory holds at least one DICOM file,
  every DICOM file in it has the x-dimension, y-dimension and channel count of the first
  one enumerated (so a mismatch in any of them makes the call fail), these are the
  dimensions of the output volume, and the z-dimension of the output is the sum of the
  frame counts of all DICOM files found in the directory.
\<close>

theorem read_dcm_dir_dimensions:
  assumes "read_dcm_dir W path im0 = (C_returns SIFT3D_SUCCESS, im)"
  shows "dicom_files W path \<noteq> [] \<and>
     (\<forall>p \<in> set (dicom_files W path).
        getNx (Dicom_of W p) = getNx (Dicom_of W (hd (dicom_files W path))) \<and>
        getNy (Dicom_of W p) = getNy (Dicom_of W (hd (dicom_files W path))) \<and>
        getNc (Dicom_of W p) = getNc (Dicom_of W (hd (dicom_files W path))) \<and>
        getNx (Dicom_of W p) = getWidth (dcm_at W p) \<and>
        getNy (Dicom_of W p) = getHeight (dcm_at W p) \<and>
        getNz (Dicom_of W p) = getFrameCount (dcm_at W p)) \<and>
     nx im = getNx (Dicom_of W (hd (dicom_files W path))) \<and>
     ny im = getNy (Dicom_of W (hd (dicom_files W path))) \<and>
     nc im = getNc (Dicom_of W (hd (dicom_files W path))) \<and>
     nz im = (\<Sum>p\<leftarrow>dicom_files W path. getFrameCount (dcm_at W p))"
proof -
  from read_dcm_dir_cpp_success[OF read_dcm_dir_success[OF assms]]
  obtain first others nz0 where
    ld: "load_dicoms W path (readdir_names W path) [] = Returns (Some (first # others))" and
    vd: "verify_dims (getNx first) (getNy first) (getNc first) (first # others) 0 = Some nz0" and
    rs: "read_slices W (std_sort W (first # others)) (init_im W) 0
       (im0\<lparr>nx := getNx first, ny := getNy first, nz := nz0,
            nc := getNc first, ux := getUx first,
            uy := getUy first, uz := getUz first\<rparr>)
       = Returns (SIFT3D_SUCCESS, im, nz0)"
    by blast
  let ?files = "dicom_files W path"
  have ds: "first # others = map (Dicom_of W) ?files"
    and valid: "\<And>p. p \<in> set ?files \<Longrightarrow> isValid (Dicom_of W p)"
    using load_dicoms_files[OF ld] by blast+
  from ds have ne: "?files \<noteq> []" by auto
  with ds have first: "first = Dicom_of W (hd ?files)"
    by (cases ?files) auto
  have dims: "\<forall>d \<in> set (first # others).
      getNx d = getNx first \<and> getNy d = getNy first \<and> getNc d = getNc first"
    and nz0: "nz0 = sum_list (map getNz (first # others))"
    using verify_dims_Some[OF vd] by auto
  have file_dims: "getNx (Dicom_of W p) = getWidth (dcm_at W p) \<and>
        getNy (Dicom_of W p) = getHeight (dcm_at W p) \<and>
        getNz (Dicom_of W p) = getFrameCount (dcm_at W p)" if "p \<in> set ?files" for p
    using Dicom_of_valid[OF valid[OF that]] by simp
  have "sum_list (map getNz (first # others)) = (\<Sum>p\<leftarrow>?files. getFrameCount (dcm_at W p))"
    unfolding ds map_map using file_dims
    by (intro arg_cong[where f=sum_list] map_cong) auto
  with nz0 have nz: "nz0 = (\<Sum>p\<leftarrow>?files. getFrameCount (dcm_at W p))" by simp
  have im_dims: "nx im = getNx first \<and> ny im = getNy first \<and> nc im = getNc first \<and> nz im = nz0"
    using read_slices_dims[OF rs] by simp
  have all: "getNx (Dicom_of W p) = getNx first \<and> getNy (Dicom_of W p) = getNy first \<and>
        getNc (Dicom_of W p) = getNc first" if "p \<in> set ?files" for p
  proof -
    from that have "Dicom_of W p \<in> set (first # others)" unfolding ds by simp
    with dims show ?thesis by blast
  qed
  show ?thesis
    unfolding first[symmetric]
  proof (intro conjI ballI)
    show "dicom_files W path \<noteq> []" by (rule ne)
  qed (use all file_dims im_dims nz in simp_all)
qed


text \<open>
  The directory \<open>d\<close> of \<open>two_world\<close>: two files of 2 and 1 frames, read into a volume of
  3 slices.
\<close>

theorem read_dcm_dir_dimensions_witness:
  "\<exists>im. read_dcm_dir two_world ''d'' blank_image = (C_returns SIFT3D_SUCCESS, im) \<and>
        dicom_files two_world ''d'' = [''d/b.dcm'', ''d/a.dcm''] \<and>
        nx im = 2 \<and> ny im = 1 \<and> nc im = 1 \<and> nz im = 3"
proof -
  have "fst (read_dcm_dir two_world ''d'' blank_image) = C_returns SIFT3D_SUCCESS"
    by code_simp
  then obtain im where
    s: "read_dcm_dir two_world ''d'' blank_image = (C_returns SIFT3D_SUCCESS, im)"
    using c_result_success_cases by blast
  have files: "dicom_files two_world ''d'' = [''d/b.dcm'', ''d/a.dcm'']"
    by code_simp
  have vals: "getNx (Dicom_of two_world ''d/b.dcm'') = 2"
    "getNy (Dicom_of two_world ''d/b.dcm'') = 1"
    "getNc (Dicom_of two_world ''d/b.dcm'') = 1"
    "getFrameCount (dcm_at two_world ''d/b.dcm'') = 2"
    "getFrameCount (dcm_at two_world ''d/a.dcm'') = 1"
    by code_simp+
  from read_dcm_dir_dimensions[OF s] files vals
  have "nx im = 2 \<and> ny im = 1 \<and> nc im = 1 \<and> nz im = 3" by simp
  with s files show ?thesis by blast
qed

subsection \<open>Series check and slice order\<close>



subsection \<open>Images the writer rejects, and the scaling factor\<close>

text \<open>
  Claim C9. \<^verbatim>\<open>write_dcm\<close> returns \<^verbatim>\<open>SIFT3D_FAILURE\<close>, and saves nothing, for every image whose
  channel count is not 1, and for every single-channel image that holds a negative voxel
  (the \<^verbatim>\<open>assert\<close> on the index macro, which precedes the voxel loop, is taken to hold:
  the macro is not among the sources). The scaling factor never comes from a division
  by zero: when the maximum used for scaling is 0 the factor is 1, otherwise it is 255
  divided by that maximum.
\<close>

theorem write_dcm_rejects:
  "(nc im \<noteq> 1 \<longrightarrow> write_dcm E t path im meta max_val fs = (C_returns SIFT3D_FAILURE, fs)) \<and>
   (nc im = 1 \<and> IM_GET_IDX E im 0 0 0 1 = IM_GET_IDX E im 0 0 0 0 + 1 \<and>
    0 \<le> x \<and> x < nx im \<and> 0 \<le> y \<and> y < ny im \<and> 0 \<le> z \<and> z < nz im \<and> data im x y z 0 < 0 \<longrightarrow>
      write_dcm E t path im meta max_val fs = (C_returns SIFT3D_FAILURE, fs)) \<and>
   pixel_scale E im max_val \<noteq> None \<and>
   (im_max_of E im max_val = 0 \<longrightarrow> pixel_scale E im max_val = Some 1) \<and>
   (im_max_of E im max_val \<noteq> 0 \<longrightarrow>
      pixel_scale E im max_val = Some (255 / im_max_of E im max_val))"
proof (intro conjI impI)
  assume "nc im \<noteq> 1"
  then show "write_dcm E t path im meta max_val fs = (C_returns SIFT3D_FAILURE, fs)"
    by (simp add: write_dcm_def write_dcm_cpp_channels CATCH_EXCEPTIONS_def)
next
  assume a: "nc im = 1 \<and> IM_GET_IDX E im 0 0 0 1 = IM_GET_IDX E im 0 0 0 0 + 1 \<and>
    0 \<le> x \<and> x < nx im \<and> 0 \<le> y \<and> y < ny im \<and> 0 \<le> z \<and> z < nz im \<and> data im x y z 0 < 0"
  then have "(x, y, z, 0) \<in> set (im_loop_c im)" by (simp add: im_loop_c_mem)
  with a have "\<exists>p \<in> set (im_loop_c im). (case p of (x, y, z, c) \<Rightarrow> data im x y z c < 0)"
    by (intro bexI[of _ "(x, y, z, 0)"]) simp_all
  then have "render_pixels im (pixel_scale E im max_val) (im_loop_c im)
           (replicate (numPixels im) None) = None"
    by (rule render_pixels_negative)
  with a have "write_dcm_cpp E t path im meta max_val fs = (Returns SIFT3D_FAILURE, fs) \<or>
         write_dcm_cpp E t path im meta max_val fs = (Throws bad_alloc, fs)"
    by (intro write_dcm_cpp_negative) simp_all
  then show "write_dcm E t path im meta max_val fs = (C_returns SIFT3D_FAILURE, fs)"
    by (auto simp: write_dcm_def CATCH_EXCEPTIONS_def bad_alloc_def)
next
  show "pixel_scale E im max_val \<noteq> None"
    by (simp add: pixel_scale_def float_div_def Let_def)
next
  assume "im_max_of E im max_val = 0"
  then show "pixel_scale E im max_val = Some 1"
    by (simp add: pixel_scale_def Let_def)
next
  assume "im_max_of E im max_val \<noteq> 0"
  then show "pixel_scale E im max_val = Some (255 / im_max_of E im max_val)"
    by (simp add: pixel_scale_def float_div_def Let_def)
qed

text \<open>
  A three-channel image, a single-channel image with the voxel \<open>-100\<close>, and the scaling
  factor of an image that is zero everywhere.
\<close>

theorem write_dcm_rejects_witness:
  "write_dcm (example_writer [] False) 0 ''f.dcm'' (row_image 3 [255, 100]) None 510 Map.empty
     = (C_returns SIFT3D_FAILURE, Map.empty) \<and>
   write_dcm (example_writer [] False) 0 ''f.dcm'' (row_image 1 [255, - 100]) None 510 Map.empty
     = (C_returns SIFT3D_FAILURE, Map.empty) \<and>
   pixel_scale (example_writer [] False) (row_image 1 [0, 0]) (- 1) = Some 1"
proof (intro conjI)
  let ?E = "example_writer [] False"
  have h1: "nc (row_image 3 [255, 100]) \<noteq> 1" by code_simp
  show "write_dcm ?E 0 ''f.dcm'' (row_image 3 [255, 100]) None 510 Map.empty
     = (C_returns SIFT3D_FAILURE, Map.empty)"
    by (rule write_dcm_rejects[where E = ?E and im = "row_image 3 [255, 100]",
          THEN conjunct1, THEN mp, OF h1])
  let ?im = "row_image 1 [255, - 100]"
  have h2: "nc ?im = 1 \<and> IM_GET_IDX ?E ?im 0 0 0 1 = IM_GET_IDX ?E ?im 0 0 0 0 + 1 \<and>
    0 \<le> (1::int) \<and> 1 < nx ?im \<and> 0 \<le> (0::int) \<and> 0 < ny ?im \<and> 0 \<le> (0::int) \<and> 0 < nz ?im \<and>
    data ?im 1 0 0 0 < 0"
    by code_simp
  show "write_dcm ?E 0 ''f.dcm'' ?im None 510 Map.empty = (C_returns SIFT3D_FAILURE, Map.empty)"
    by (rule write_dcm_rejects[where E = ?E and im = ?im and x = 1 and y = 0 and z = 0,
          THEN conjunct2, THEN conjunct1, THEN mp, OF h2])
  have h3: "im_max_of ?E (row_image 1 [0, 0]) (- 1) = 0" by code_simp
  show "pixel_scale ?E (row_image 1 [0, 0]) (- 1) = Some 1"
    by (rule write_dcm_rejects[where E = ?E and im = "row_image 1 [0, 0]" and max_val = "- 1",
          THEN conjunct2, THEN conjunct2, THEN conjunct2, THEN conjunct1, THEN mp, OF h3])
qed



subsection \<open>What a write with default metadata stores\<close>




section \<open>Properties of the driver\<close>

subsection \<open>Runs\<close>

lemma fst_emit [simp]: "fst (emit evs rest) = fst rest"
  by (simp add: emit_def)

lemma snd_emit [simp]: "snd (emit evs rest) = evs @ snd rest"
  by (simp add: emit_def)

lemma fst_checked:
  "fst (checked ev r msg cont) = (case r of None \<Rightarrow> Err_exit msg | Some v \<Rightarrow> fst (cont v))"
  by (simp add: checked_def split: option.splits)

lemma snd_checked:
  "snd (checked ev r msg cont) = ev # (case r of None \<Rightarrow> [] | Some v \<Rightarrow> snd (cont v))"
  by (simp add: checked_def split: option.splits)

lemma checked_Some [simp]: "checked ev (Some v) msg cont = emit [ev] (cont v)"
  by (simp add: checked_def)

lemma debug_checked_ok: "debug_ok E msg \<Longrightarrow> debug_checked E VERBOSE msg rest = rest"
  by (simp add: debug_checked_def)

lemma debug_checked_False [simp]: "debug_checked E False msg rest = rest"
  by (simp add: debug_checked_def)

lemma checked_exit:
  assumes "\<And>v. r = Some v \<Longrightarrow> fst (cont v) \<in> S" and "Err_exit msg \<in> S"
  shows "fst (checked ev r msg cont) \<in> S"
  using assms by (simp add: fst_checked split: option.splits)

lemma debug_checked_exit:
  assumes "fst rest \<in> S" and "Err_exit msg \<in> S"
  shows "fst (debug_checked E VERBOSE msg rest) \<in> S"
  using assms by (simp add: debug_checked_def)

lemma emit_exit: "fst rest \<in> S \<Longrightarrow> fst (emit evs rest) \<in> S"
  by simp

lemma checked_events:
  assumes "Q ev" and "\<And>v. r = Some v \<Longrightarrow> \<forall>c\<in>set (snd (cont v)). Q c"
  shows "\<forall>c\<in>set (snd (checked ev r msg cont)). Q c"
  using assms by (cases r) (auto simp: snd_checked)

lemma debug_checked_events:
  assumes "\<forall>c\<in>set (snd rest). Q c"
  shows "\<forall>c\<in>set (snd (debug_checked E VERBOSE msg rest)). Q c"
  using assms by (simp add: debug_checked_def)

lemma emit_events:
  assumes "\<forall>c\<in>set evs. Q c" and "\<forall>c\<in>set (snd rest). Q c"
  shows "\<forall>c\<in>set (snd (emit evs rest)). Q c"
  using assms by auto

lemma if_exit:
  assumes "c \<Longrightarrow> fst a \<in> S" and "\<not> c \<Longrightarrow> fst b \<in> S"
  shows "fst (if c then a else b) \<in> S"
  using assms by simp

lemma if_events:
  assumes "c \<Longrightarrow> \<forall>e\<in>set (snd a). Q e" and "\<not> c \<Longrightarrow> \<forall>e\<in>set (snd b). Q e"
  shows "\<forall>e\<in>set (snd (if c then a else b)). Q e"
  using assms by simp

lemma main_verbose_end_exit:
  "fst (main_verbose_end E syn_mode aff_syn desc_src desc_ref matches match_src)
     \<in> insert (Return 0) (insert Out_of_bounds (range Err_exit))"
  unfolding main_verbose_end_def Let_def
  by (simp add: debug_checked_def split: option.splits)

lemma main_register_exit:
  "fst (main_register E VERBOSE syn_mode ransac aff_syn aff_reg src ref)
     \<in> insert (Return 0) (insert Out_of_bounds (range Err_exit))"
  unfolding main_register_def Let_def
  by (intro checked_exit debug_checked_exit emit_exit if_exit main_verbose_end_exit) simp_all

lemma main_exit:
  assumes "2 \<le> length argv"
  shows "fst (main E VERBOSE argv) \<in> insert (Return 0) (insert Out_of_bounds (range Err_exit))"
proof -
  from assms have a: "\<not> int (length argv) < 2" by simp
  show ?thesis
    unfolding main_def Let_def
    apply (simp only: a if_False)
    apply (intro checked_exit debug_checked_exit emit_exit if_exit main_register_exit)
    apply simp_all
    done
qed

lemma checked_succeeds:
  assumes "r \<noteq> None" and "\<And>v. r = Some v \<Longrightarrow> fst (cont v) = Return 0"
  shows "fst (checked ev r msg cont) = Return 0"
  using assms by (cases r) (simp_all add: fst_checked)

lemma debug_checked_succeeds:
  assumes "debug_ok E msg" and "fst rest = Return 0"
  shows "fst (debug_checked E VERBOSE msg rest) = Return 0"
  using assms by (simp add: debug_checked_def)

lemma emit_succeeds: "fst rest = Return 0 \<Longrightarrow> fst (emit evs rest) = Return 0"
  by simp

lemma if_succeeds:
  assumes "c \<Longrightarrow> fst a = Return 0" and "\<not> c \<Longrightarrow> fst b = Return 0"
  shows "fst (if c then a else b) = Return 0"
  using assms by simp

lemma classify_in_bounds:
  assumes "match_idx < int (length desc_ref)"
  shows "classify E aff_syn desc_ref ds match_idx \<noteq> None"
  using assms
  by (cases "apply_tform_xyz E (xd ds) (yd ds) (zd ds) AFFINE aff_syn")
     (simp add: classify_def Let_def)

lemma count_true_in_bounds:
  assumes "\<And>i. i \<in> set idxs \<Longrightarrow> i < length matches \<and> matches ! i < int (length desc_ref)"
  shows "count_true E aff_syn desc_ref desc_src matches idxs counts \<noteq> None"
  using assms
proof (induction idxs arbitrary: counts)
  case Nil
  show ?case by simp
next
  case (Cons i rest)
  have i: "i < length matches" "matches ! i < int (length desc_ref)"
    using Cons.prems[of i] by simp_all
  have rest: "count_true E aff_syn desc_ref desc_src matches rest cs \<noteq> None" for cs
    using Cons.IH[of cs] Cons.prems by simp
  from classify_in_bounds[OF i(2), of E aff_syn "desc_src ! i"]
  obtain cl where cl: "classify E aff_syn desc_ref (desc_src ! i) (matches ! i) = Some cl"
    by auto
  show ?case
    using i(1) cl rest by (cases cl) simp_all
qed

lemma main_verbose_end_succeeds:
  assumes "library_succeeds E"
      and "SIFT3D_nn_match_fb E desc_src desc_ref nn_thresh = Some matches"
  shows "fst (main_verbose_end E syn_mode aff_syn desc_src desc_ref matches match_src) = Return 0"
proof -
  from assms have b: "length desc_src \<le> length matches"
    "\<And>m. m \<in> set matches \<Longrightarrow> m < int (length desc_ref)"
    unfolding library_succeeds_def by blast+
  have "count_true E aff_syn desc_ref desc_src matches [0..<length desc_src] (0, 0) \<noteq> None"
    using b by (intro count_true_in_bounds) simp
  moreover have "debug_ok E msg" for msg
    using assms(1) by (simp add: library_succeeds_def)
  ultimately show ?thesis
    unfolding main_verbose_end_def Let_def
    by (auto simp: debug_checked_def)
qed

lemma main_register_succeeds:
  assumes "library_succeeds E"
  shows "fst (main_register E VERBOSE syn_mode ransac aff_syn aff_reg src ref) = Return 0"
  unfolding main_register_def Let_def
  by (intro checked_succeeds debug_checked_succeeds emit_succeeds if_succeeds
        main_verbose_end_succeeds[OF assms];
      (assumption | simp add: assms[unfolded library_succeeds_def]))

lemma main_succeeds:
  assumes "2 \<le> length argv" and "library_succeeds E"
  shows "fst (main E VERBOSE argv) = Return 0"
proof -
  from assms have a: "\<not> int (length argv) < 2" by simp
  show ?thesis
    unfolding main_def Let_def
    apply (simp only: a if_False)
    apply (intro checked_succeeds debug_checked_succeeds emit_succeeds if_succeeds
        main_register_succeeds[OF assms(2)];
      simp add: assms(2)[unfolded library_succeeds_def])
    done
qed

lemma main_usage: "length argv < 2 \<Longrightarrow> fst (main E VERBOSE argv) = Return 1"
  by (simp add: main_def)

lemma example_driver_succeeds: "library_succeeds (example_driver features matched)"
  by (auto simp: library_succeeds_def example_driver_def)

lemma checked_reaches:
  assumes "\<And>v. r = Some v \<Longrightarrow> fst (cont v) = Return 0 \<longrightarrow> (\<exists>c\<in>set (snd (cont v)). Q c)"
  shows "fst (checked ev r msg cont) = Return 0 \<longrightarrow> (\<exists>c\<in>set (snd (checked ev r msg cont)). Q c)"
  using assms by (cases r) (auto simp: checked_def)

lemma checked_reached:
  assumes "Q ev"
  shows "fst (checked ev r msg cont) = Return 0 \<longrightarrow> (\<exists>c\<in>set (snd (checked ev r msg cont)). Q c)"
  using assms by (cases r) (auto simp: checked_def)

lemma debug_checked_reaches:
  assumes "fst rest = Return 0 \<longrightarrow> (\<exists>c\<in>set (snd rest). Q c)"
  shows "fst (debug_checked E VERBOSE msg rest) = Return 0
           \<longrightarrow> (\<exists>c\<in>set (snd (debug_checked E VERBOSE msg rest)). Q c)"
  using assms by (simp add: debug_checked_def)

lemma emit_reaches:
  assumes "fst rest = Return 0 \<longrightarrow> (\<exists>c\<in>set (snd rest). Q c)"
  shows "fst (emit evs rest) = Return 0 \<longrightarrow> (\<exists>c\<in>set (snd (emit evs rest)). Q c)"
  using assms by auto

lemma if_reaches:
  assumes "c \<Longrightarrow> fst a = Return 0 \<longrightarrow> (\<exists>e\<in>set (snd a). Q e)"
      and "\<not> c \<Longrightarrow> fst b = Return 0 \<longrightarrow> (\<exists>e\<in>set (snd b). Q e)"
  shows "fst (if c then a else b) = Return 0 \<longrightarrow> (\<exists>e\<in>set (snd (if c then a else b)). Q e)"
  using assms by simp

text \<open>The parameters in the calls of \<open>main_register\<close>.\<close>

lemma main_verbose_end_events:
  assumes "\<And>a b c d e f g. Q (Print_statistics a b c d e f g)"
  shows "\<forall>c\<in>set (snd (main_verbose_end E syn_mode aff_syn desc_src desc_ref matches match_src)). Q c"
  unfolding main_verbose_end_def Let_def
  using assms by (auto simp: debug_checked_def split: option.splits)

lemma main_register_parameters:
  "\<forall>c\<in>set (snd (main_register E VERBOSE syn_mode ransac aff_syn aff_reg src ref)).
     (case c of
        Call_init_Ransac a b n \<Rightarrow> a = MIN_INLIER_RATIO \<and> b = ERR_THRESH \<and> n = NUM_ITER
      | Call_SIFT3D_nn_match_fb d1 d2 th \<Rightarrow> th = NN_THRESH
      | Call_find_tform_ransac r ms mr n t aff \<Rightarrow> r = ransac
      | _ \<Rightarrow> True)"
  unfolding main_register_def Let_def
  by (intro checked_events debug_checked_events emit_events if_events main_verbose_end_events)
     simp_all

lemma main_register_matches:
  "fst (main_register E VERBOSE syn_mode ransac aff_syn aff_reg src ref) = Return 0 \<longrightarrow>
   (\<exists>c\<in>set (snd (main_register E VERBOSE syn_mode ransac aff_syn aff_reg src ref)).
      \<exists>d1 d2. c = Call_SIFT3D_nn_match_fb d1 d2 NN_THRESH)"
  unfolding main_register_def Let_def
  apply (rule checked_reaches)+
  apply (rule debug_checked_reaches)+
  apply (rule checked_reaches)+
  apply (rule debug_checked_reaches)+
  apply (rule checked_reached)
  apply blast
  done

lemma main_register_fits:
  "fst (main_register E VERBOSE syn_mode ransac aff_syn aff_reg src ref) = Return 0 \<longrightarrow>
   (\<exists>c\<in>set (snd (main_register E VERBOSE syn_mode ransac aff_syn aff_reg src ref)).
      \<exists>ms mr aff. c = Call_find_tform_ransac ransac ms mr 3 AFFINE aff)"
  unfolding main_register_def Let_def
  apply (rule checked_reaches)+
  apply (rule debug_checked_reaches)+
  apply (rule checked_reaches)+
  apply (rule debug_checked_reaches)+
  apply (rule checked_reaches)+
  apply (rule debug_checked_reaches)+
  apply (rule checked_reached)
  apply blast
  done

lemma main_parameters:
  "\<forall>c\<in>set (snd (main E VERBOSE argv)).
     (case c of
        Call_init_Ransac a b n \<Rightarrow> a = MIN_INLIER_RATIO \<and> b = ERR_THRESH \<and> n = NUM_ITER
      | Call_SIFT3D_nn_match_fb d1 d2 th \<Rightarrow> th = NN_THRESH
      | Call_find_tform_ransac r ms mr n t aff \<Rightarrow>
          r = init_Ransac E MIN_INLIER_RATIO ERR_THRESH NUM_ITER
      | _ \<Rightarrow> True)"
  unfolding main_def Let_def
  by (intro checked_events debug_checked_events emit_events if_events main_register_parameters)
     simp_all

lemma main_matches:
  "fst (main E VERBOSE argv) = Return 0 \<longrightarrow>
   (\<exists>c\<in>set (snd (main E VERBOSE argv)). \<exists>d1 d2. c = Call_SIFT3D_nn_match_fb d1 d2 NN_THRESH)"
  unfolding main_def Let_def
  by (intro checked_reaches debug_checked_reaches emit_reaches if_reaches main_register_matches)
     simp

lemma main_fits:
  "fst (main E VERBOSE argv) = Return 0 \<longrightarrow>
   (\<exists>c\<in>set (snd (main E VERBOSE argv)). \<exists>ms mr aff.
      c = Call_find_tform_ransac (init_Ransac E MIN_INLIER_RATIO ERR_THRESH NUM_ITER)
            ms mr 3 AFFINE aff)"
  unfolding main_def Let_def
  by (intro checked_reaches debug_checked_reaches emit_reaches if_reaches main_register_fits)
     simp

lemma main_init_Ransac:
  "2 \<le> length argv \<Longrightarrow>
   Call_init_Ransac MIN_INLIER_RATIO ERR_THRESH NUM_ITER \<in> set (snd (main E VERBOSE argv))"
  by (simp add: main_def Let_def)

lemma driver_parameters:
  "MIN_INLIER_RATIO = 1 / 1000" "ERR_THRESH = 5" "NUM_ITER = 500" "NN_THRESH = 8 / 10"
  by (simp_all add: MIN_INLIER_RATIO_def ERR_THRESH_def NUM_ITER_def NN_THRESH_def)

lemma padding_contract_init:
  assumes "padding_contract E" and "init_im_first_time E im x y z = Some im'"
  shows "nx im' = x \<and> ny im' = y \<and> nz im' = z"
  using assms unfolding padding_contract_def by blast

lemma padding_contract_pad:
  assumes "padding_contract E" and "im_pad E im pad = Some pad'"
  shows "nx pad' = nx pad \<and> ny pad' = ny pad \<and> nz pad' = nz pad"
  using assms unfolding padding_contract_def by blast

lemma padding_contract_MAX: "padding_contract E \<Longrightarrow> MAX_macro E = max"
  by (simp add: padding_contract_def)

lemma main_register_padded:
  assumes "padding_contract E"
  shows "\<forall>c\<in>set (snd (main_register E VERBOSE syn_mode ransac aff_syn aff_reg src ref)).
     (case c of
        Call_init_im_first_time im x y z \<Rightarrow>
          x = max (nx src) (nx ref) \<and> y = max (ny src) (ny ref) \<and> z = max (nz src) (nz ref)
      | Call_im_pad im pad \<Rightarrow>
          (im = src \<or> im = ref) \<and> nx pad = max (nx src) (nx ref) \<and>
          ny pad = max (ny src) (ny ref) \<and> nz pad = max (nz src) (nz ref)
      | Call_SIFT3D_detect_keypoints detector im \<Rightarrow>
          nx im = max (nx src) (nx ref) \<and> ny im = max (ny src) (ny ref) \<and>
          nz im = max (nz src) (nz ref)
      | _ \<Rightarrow> True)"
  unfolding main_register_def Let_def padding_contract_MAX[OF assms]
  by (intro checked_events debug_checked_events emit_events if_events main_verbose_end_events)
     (auto dest!: padding_contract_init[OF assms] padding_contract_pad[OF assms])

lemma main_register_padded_syn:
  assumes "padding_contract E" and "im_inv_transform E ref AFFINE aff_syn = Some src"
  shows "\<forall>c\<in>set (snd (main_register E VERBOSE syn_mode ransac aff_syn aff_reg src ref)).
     (case c of
        Call_SIFT3D_detect_keypoints detector im \<Rightarrow>
          (\<exists>aff syn. im_inv_transform E ref AFFINE aff = Some syn \<and>
             nx im = max (nx syn) (nx ref) \<and> ny im = max (ny syn) (ny ref) \<and>
             nz im = max (nz syn) (nz ref))
      | _ \<Rightarrow> True)"
proof
  fix c
  assume "c \<in> set (snd (main_register E VERBOSE syn_mode ransac aff_syn aff_reg src ref))"
  from main_register_padded[OF assms(1), rule_format, OF this] assms(2)
  show "case c of
        Call_SIFT3D_detect_keypoints detector im \<Rightarrow>
          (\<exists>aff syn. im_inv_transform E ref AFFINE aff = Some syn \<and>
             nx im = max (nx syn) (nx ref) \<and> ny im = max (ny syn) (ny ref) \<and>
             nz im = max (nz syn) (nz ref))
      | _ \<Rightarrow> True"
    by (cases c) auto
qed

lemma main_padded_real:
  assumes "padding_contract E" and "3 \<le> length argv"
      and "read_nii E (argv ! 1) = Some ref" and "read_nii E (argv ! 2) = Some src"
  shows "\<forall>c\<in>set (snd (main E VERBOSE argv)).
     (case c of
        Call_init_im_first_time im x y z \<Rightarrow>
          x = max (nx src) (nx ref) \<and> y = max (ny src) (ny ref) \<and> z = max (nz src) (nz ref)
      | Call_im_pad im pad \<Rightarrow>
          (im = src \<or> im = ref) \<and> nx pad = max (nx src) (nx ref) \<and>
          ny pad = max (ny src) (ny ref) \<and> nz pad = max (nz src) (nz ref)
      | Call_SIFT3D_detect_keypoints detector im \<Rightarrow>
          nx im = max (nx src) (nx ref) \<and> ny im = max (ny src) (ny ref) \<and>
          nz im = max (nz src) (nz ref)
      | _ \<Rightarrow> True)"
proof -
  from assms(2) have a: "\<not> int (length argv) < 2" "\<not> int (length argv) < 3" by simp_all
  show ?thesis
    unfolding main_def Let_def
    apply (simp only: a if_False assms(3,4) checked_Some)
    apply (intro checked_events emit_events main_register_padded[OF assms(1)])
    apply simp_all
    done
qed

lemma main_padded_syn:
  assumes "padding_contract E" and "length argv = 2" and "read_nii E (argv ! 1) = Some ref"
  shows "\<forall>c\<in>set (snd (main E VERBOSE argv)).
     (case c of
        Call_SIFT3D_detect_keypoints detector im \<Rightarrow>
          (\<exists>aff syn. im_inv_transform E ref AFFINE aff = Some syn \<and>
             nx im = max (nx syn) (nx ref) \<and> ny im = max (ny syn) (ny ref) \<and>
             nz im = max (nz syn) (nz ref))
      | _ \<Rightarrow> True)"
proof -
  from assms(2) have a: "\<not> int (length argv) < 2" "int (length argv) < 3" by simp_all
  show ?thesis
    unfolding main_def Let_def
    apply (simp only: a if_False if_True assms(3) checked_Some)
    apply (intro checked_events debug_checked_events emit_events
             main_register_padded_syn[OF assms(1)])
    apply simp_all
    done
qed

lemma main_register_detects:
  "fst (main_register E VERBOSE syn_mode ransac aff_syn aff_reg src ref) = Return 0 \<longrightarrow>
   (\<exists>c\<in>set (snd (main_register E VERBOSE syn_mode ransac aff_syn aff_reg src ref)).
      \<exists>detector im. c = Call_SIFT3D_detect_keypoints detector im)"
  unfolding main_register_def Let_def
  apply (rule checked_reaches)
  apply (rule checked_reaches)
  apply (rule checked_reaches)
  apply (rule checked_reaches)
  apply (rule checked_reaches)
  apply (rule checked_reaches)
  apply (rule checked_reached)
  apply blast
  done

lemma main_detects:
  "fst (main E VERBOSE argv) = Return 0 \<longrightarrow>
   (\<exists>c\<in>set (snd (main E VERBOSE argv)).
      \<exists>detector im. c = Call_SIFT3D_detect_keypoints detector im)"
  unfolding main_def Let_def
  by (intro checked_reaches debug_checked_reaches emit_reaches if_reaches main_register_detects)
     simp

lemma example_driver_pads: "padding_contract (example_driver features matched)"
  by (simp add: padding_contract_def example_driver_def)

subsection \<open>The true classifications\<close>

lemma sqrt_min_less: "sqrt (min a b) < c \<longleftrightarrow> sqrt a < c \<or> sqrt b < c"
proof (cases "a \<le> b")
  case True
  then have le: "sqrt a \<le> sqrt b" by simp
  have "sqrt a < c" if "sqrt b < c"
    using le that by (rule le_less_trans)
  with True show ?thesis by (auto simp: min_def)
next
  case False
  then have le: "sqrt b \<le> sqrt a" by simp
  have "sqrt b < c" if "sqrt a < c"
    using le that by (rule le_less_trans)
  with False show ?thesis by (auto simp: min_def)
qed

lemma sqrt_nearest_err_sq_less:
  assumes "MIN_macro E = min"
  shows "sqrt (nearest_err_sq E xst yst zst refs m) < c \<longleftrightarrow>
         sqrt m < c \<or> (\<exists>dr\<in>set refs. sqrt (err_sq_to xst yst zst dr) < c)"
proof (induction refs arbitrary: m)
  case Nil
  show ?case by simp
next
  case (Cons dr rest)
  show ?case
    unfolding nearest_err_sq.simps assms Cons.IH sqrt_min_less by auto
qed

lemma ERR_THRESH_le_sqrt_DBL_MAX: "ERR_THRESH \<le> sqrt DBL_MAX"
proof -
  have "(25::real) \<le> DBL_MAX" by (simp add: DBL_MAX_def)
  then have "sqrt 25 \<le> sqrt DBL_MAX" by (simp only: real_sqrt_le_iff)
  moreover have "sqrt 25 = (5::real)" by (rule real_sqrt_unique) simp_all
  ultimately show ?thesis by (simp add: ERR_THRESH_def)
qed

lemma sqrt_nearest_DBL_MAX:
  assumes "MIN_macro E = min" and "c \<le> ERR_THRESH"
  shows "sqrt (nearest_err_sq E xst yst zst refs DBL_MAX) < c \<longleftrightarrow>
         (\<exists>dr\<in>set refs. sqrt (err_sq_to xst yst zst dr) < c)"
  using assms(2) ERR_THRESH_le_sqrt_DBL_MAX
  unfolding sqrt_nearest_err_sq_less[OF assms(1)] by auto

lemma classify_True_positive:
  assumes "MIN_macro E = min"
      and "apply_tform_xyz E (xd ds) (yd ds) (zd ds) AFFINE aff_syn = (xst, yst, zst)"
  shows "classify E aff_syn desc_ref ds match_idx = Some True_positive \<longleftrightarrow>
         0 \<le> match_idx \<and> match_idx < int (length desc_ref) \<and>
         sqrt (err_sq_to xst yst zst (desc_ref ! nat match_idx)) \<le> ERR_THRESH \<and>
         (\<forall>dr\<in>set desc_ref. \<not> sqrt (err_sq_to xst yst zst dr)
             < sqrt (err_sq_to xst yst zst (desc_ref ! nat match_idx)) - 1)"
proof (cases "0 \<le> match_idx \<and> match_idx < int (length desc_ref) \<and>
         sqrt (err_sq_to xst yst zst (desc_ref ! nat match_idx)) \<le> ERR_THRESH")
  case True
  then have c: "sqrt (err_sq_to xst yst zst (desc_ref ! nat match_idx)) - 1 \<le> ERR_THRESH"
    by simp
  show ?thesis
    using True
    by (simp add: classify_def assms(2) Let_def sqrt_nearest_DBL_MAX[OF assms(1) c])
next
  case False
  then show ?thesis
    by (auto simp: classify_def assms(2) Let_def)
qed

lemma classify_True_negative:
  assumes "MIN_macro E = min"
      and "apply_tform_xyz E (xd ds) (yd ds) (zd ds) AFFINE aff_syn = (xst, yst, zst)"
  shows "classify E aff_syn desc_ref ds match_idx = Some True_negative \<longleftrightarrow>
         match_idx < 0 \<and> (\<forall>dr\<in>set desc_ref. ERR_THRESH \<le> sqrt (err_sq_to xst yst zst dr))"
  by (auto simp: classify_def assms(2) Let_def sqrt_nearest_DBL_MAX[OF assms(1) order_refl]
        not_le)

lemma count_true_counts:
  assumes "count_true E aff_syn desc_ref desc_src matches idxs counts = Some counts'"
  shows "fst counts' = fst counts + int (length (filter
           (\<lambda>i. classify E aff_syn desc_ref (desc_src ! i) (matches ! i) = Some True_positive)
           idxs)) \<and>
         snd counts' = snd counts + int (length (filter
           (\<lambda>i. classify E aff_syn desc_ref (desc_src ! i) (matches ! i) = Some True_negative)
           idxs))"
  using assms
proof (induction idxs arbitrary: counts)
  case Nil
  then show ?case by simp
next
  case (Cons i rest)
  from Cons.prems have b: "\<not> length matches \<le> i"
    by (auto split: if_splits)
  from Cons.prems b obtain cl where
    cl: "classify E aff_syn desc_ref (desc_src ! i) (matches ! i) = Some cl"
    by (cases "classify E aff_syn desc_ref (desc_src ! i) (matches ! i)") auto
  show ?case
  proof (cases cl)
    case True_positive
    with Cons.prems b cl
    have "count_true E aff_syn desc_ref desc_src matches rest (fst counts + 1, snd counts)
            = Some counts'" by simp
    from Cons.IH[OF this] cl True_positive show ?thesis by simp
  next
    case True_negative
    with Cons.prems b cl
    have "count_true E aff_syn desc_ref desc_src matches rest (fst counts, snd counts + 1)
            = Some counts'" by simp
    from Cons.IH[OF this] cl True_negative show ?thesis by simp
  next
    case False_positive
    with Cons.prems b cl
    have "count_true E aff_syn desc_ref desc_src matches rest counts = Some counts'" by simp
    from Cons.IH[OF this] cl False_positive show ?thesis by simp
  next
    case False_negative
    with Cons.prems b cl
    have "count_true E aff_syn desc_ref desc_src matches rest counts = Some counts'" by simp
    from Cons.IH[OF this] cl False_negative show ?thesis by simp
  qed
qed

lemma example_distance:
  "sqrt (err_sq_to x 0 0 (example_descriptor x' 0 0)) = \<bar>x - x'\<bar>"
  by (simp add: err_sq_to_def example_descriptor_def Let_def)

section \<open>The claims about the driver\<close>

subsection \<open>Exit codes\<close>

text \<open>
  Claim C6. Invoked with fewer than two command-line arguments, the program name included
  (\<^verbatim>\<open>argc < 2\<close>), \<^verbatim>\<open>main\<close> returns 1. With two or more, a run in which every library call
  succeeds returns 0, in the plain and in the \<^verbatim>\<open>VERBOSE\<close> build; and whatever the library
  does, 0 is the only code such a run returns: every other run ends in \<^verbatim>\<open>err_exit\<close> (or, in
  the statistics of the \<^verbatim>\<open>VERBOSE\<close> build, in a read outside an array).
\<close>

theorem main_exit_codes:
  "(length argv < 2 \<longrightarrow> fst (main E VERBOSE argv) = Return 1) \<and>
   (2 \<le> length argv \<and> library_succeeds E \<longrightarrow> fst (main E VERBOSE argv) = Return 0) \<and>
   (2 \<le> length argv \<and> fst (main E VERBOSE argv) = Return code \<longrightarrow> code = 0)"
proof (intro conjI impI)
  assume "length argv < 2"
  then show "fst (main E VERBOSE argv) = Return 1"
    by (rule main_usage)
next
  assume "2 \<le> length argv \<and> library_succeeds E"
  then show "fst (main E VERBOSE argv) = Return 0"
    using main_succeeds by blast
next
  assume a: "2 \<le> length argv \<and> fst (main E VERBOSE argv) = Return code"
  then have "fst (main E VERBOSE argv) \<in> insert (Return 0) (insert Out_of_bounds (range Err_exit))"
    using main_exit by blast
  with a show "code = 0"
    by auto
qed

text \<open>
  The program name alone gives 1; the synthetic and the real mode of the \<^verbatim>\<open>VERBOSE\<close> build,
  with the library in which every call succeeds, give 0.
\<close>

theorem main_exit_codes_witness:
  "fst (main (example_driver [] []) True [''siftreg'']) = Return 1 \<and>
   fst (main (example_driver [example_descriptor 1 2 3] [0]) True [''siftreg'', ''ref.nii''])
     = Return 0 \<and>
   fst (main (example_driver [example_descriptor 1 2 3] [0]) True
          [''siftreg'', ''ref.nii'', ''src.nii'']) = Return 0"
proof (intro conjI)
  show "fst (main (example_driver [] []) True [''siftreg'']) = Return 1"
    using main_exit_codes[of "[''siftreg'']" "example_driver [] []" True]
    by simp
  show "fst (main (example_driver [example_descriptor 1 2 3] [0]) True [''siftreg'', ''ref.nii''])
     = Return 0"
    using main_exit_codes[of "[''siftreg'', ''ref.nii'']"
        "example_driver [example_descriptor 1 2 3] [0]" True] example_driver_succeeds
    by simp
  show "fst (main (example_driver [example_descriptor 1 2 3] [0]) True
          [''siftreg'', ''ref.nii'', ''src.nii'']) = Return 0"
    using main_exit_codes[of "[''siftreg'', ''ref.nii'', ''src.nii'']"
        "example_driver [example_descriptor 1 2 3] [0]" True] example_driver_succeeds
    by simp
qed

subsection \<open>Default parameters\<close>

text \<open>
  Claim C7. The driver fixes \<^verbatim>\<open>NN_THRESH\<close> = 0.8, \<^verbatim>\<open>MIN_INLIER_RATIO\<close> = 0.001,
  \<^verbatim>\<open>ERR_THRESH\<close> = 5.0 and \<^verbatim>\<open>NUM_ITER\<close> = 500 and passes them on unchanged: whenever it gets
  past the parsing of its arguments it calls \<^verbatim>\<open>init_Ransac\<close> with 0.001, 5 and 500; every
  call of \<^verbatim>\<open>init_Ransac\<close> it makes has these arguments, every call of \<^verbatim>\<open>SIFT3D_nn_match_fb\<close>
  has the threshold 0.8, and every call of \<^verbatim>\<open>find_tform_ransac\<close> receives the \<^verbatim>\<open>Ransac\<close>
  structure that \<^verbatim>\<open>init_Ransac\<close> set up with them; a run that returns 0 has made both
  calls.
\<close>

theorem driver_default_parameters:
  "(2 \<le> length argv \<longrightarrow>
      Call_init_Ransac (1 / 1000) 5 500 \<in> set (snd (main E VERBOSE argv))) \<and>
   (Call_init_Ransac a b n \<in> set (snd (main E VERBOSE argv)) \<longrightarrow>
      a = 1 / 1000 \<and> b = 5 \<and> n = 500) \<and>
   (Call_SIFT3D_nn_match_fb d1 d2 th \<in> set (snd (main E VERBOSE argv)) \<longrightarrow> th = 8 / 10) \<and>
   (Call_find_tform_ransac r ms mr k t aff \<in> set (snd (main E VERBOSE argv)) \<longrightarrow>
      r = init_Ransac E (1 / 1000) 5 500) \<and>
   (fst (main E VERBOSE argv) = Return 0 \<longrightarrow>
      (\<exists>s1 s2. Call_SIFT3D_nn_match_fb s1 s2 (8 / 10) \<in> set (snd (main E VERBOSE argv))) \<and>
      (\<exists>m1 m2 a1. Call_find_tform_ransac (init_Ransac E (1 / 1000) 5 500) m1 m2 3 AFFINE a1
          \<in> set (snd (main E VERBOSE argv))))"
proof (intro conjI impI)
  assume "2 \<le> length argv"
  then show "Call_init_Ransac (1 / 1000) 5 500 \<in> set (snd (main E VERBOSE argv))"
    using main_init_Ransac[of argv E VERBOSE] by (simp add: driver_parameters)
next
  assume "Call_init_Ransac a b n \<in> set (snd (main E VERBOSE argv))"
  from main_parameters[rule_format, OF this]
  show "a = 1 / 1000" "b = 5" "n = 500"
    by (simp_all add: driver_parameters)
next
  assume "Call_SIFT3D_nn_match_fb d1 d2 th \<in> set (snd (main E VERBOSE argv))"
  from main_parameters[rule_format, OF this]
  show "th = 8 / 10"
    by (simp add: driver_parameters)
next
  assume "Call_find_tform_ransac r ms mr k t aff \<in> set (snd (main E VERBOSE argv))"
  from main_parameters[rule_format, OF this]
  show "r = init_Ransac E (1 / 1000) 5 500"
    by (simp add: driver_parameters)
next
  assume "fst (main E VERBOSE argv) = Return 0"
  with main_matches[of E VERBOSE argv]
  show "\<exists>s1 s2. Call_SIFT3D_nn_match_fb s1 s2 (8 / 10) \<in> set (snd (main E VERBOSE argv))"
    by (auto simp: driver_parameters)
next
  assume "fst (main E VERBOSE argv) = Return 0"
  with main_fits[of E VERBOSE argv]
  show "\<exists>m1 m2 a1. Call_find_tform_ransac (init_Ransac E (1 / 1000) 5 500) m1 m2 3 AFFINE a1
          \<in> set (snd (main E VERBOSE argv))"
    by (auto simp: driver_parameters)
qed

text \<open>
  A run of the real mode with the library in which every call succeeds returns 0, so it
  has called \<^verbatim>\<open>init_Ransac\<close> and the matcher with the parameters.
\<close>

theorem driver_default_parameters_witness:
  "Call_init_Ransac (1 / 1000) 5 500
     \<in> set (snd (main (example_driver [example_descriptor 1 2 3] [0]) False
                   [''siftreg'', ''ref.nii'', ''src.nii''])) \<and>
   (\<exists>s1 s2. Call_SIFT3D_nn_match_fb s1 s2 (8 / 10)
     \<in> set (snd (main (example_driver [example_descriptor 1 2 3] [0]) False
                   [''siftreg'', ''ref.nii'', ''src.nii''])))"
proof -
  have "fst (main (example_driver [example_descriptor 1 2 3] [0]) False
               [''siftreg'', ''ref.nii'', ''src.nii'']) = Return 0"
    by (simp add: main_def main_register_def example_driver_def Let_def)
  then show ?thesis
    using driver_default_parameters[of "[''siftreg'', ''ref.nii'', ''src.nii'']"
        "example_driver [example_descriptor 1 2 3] [0]" False]
    by simp
qed

subsection \<open>Padding to common dimensions\<close>



subsection \<open>True positives and true negatives of the synthetic mode\<close>



end
